theory Spec2Isabelle
  imports Complex_Main "HOL-Library.Sublist"
begin

section \<open>JavaScript strings and the string operations the service uses\<close>

text \<open>
  A JavaScript string is modelled as a \<^typ>\<open>string\<close>, one \<^typ>\<open>char\<close> per code unit;
  the model covers the code units 0 to 255. \<open>isSpace\<close> is the class \<open>\s\<close> of a JavaScript
  regular expression on that range (tab, line feed, vertical tab, form feed, carriage
  return, space, no-break space), which is also what \<open>trim\<close> strips; \<open>isDigit\<close> is \<open>\d\<close>.
\<close>

definition isSpace :: "char \<Rightarrow> bool" where
  "isSpace c = (c = CHR 0x09 \<or> c = CHR 0x0A \<or> c = CHR 0x0B \<or> c = CHR 0x0C
     \<or> c = CHR 0x0D \<or> c = CHR 0x20 \<or> c = CHR 0xA0)"

definition isDigit :: "char \<Rightarrow> bool" where
  "isDigit c = (c \<in> set ''0123456789'')"

text \<open>
  The value of a decimal digit is its position in the digits, and \<open>parseInt\<close> on a string
  of decimal digits reads it in base ten. \<open>parseInt\<close> is applied to the digits a match of
  \<open>\d+\<close> holds only.
\<close>

definition digitVal :: "char \<Rightarrow> nat" where
  "digitVal c = length (takeWhile (\<lambda>d. d \<noteq> c) ''0123456789'')"

definition parseInt :: "string \<Rightarrow> nat" where
  "parseInt ds = foldl (\<lambda>a c. 10 * a + digitVal c) 0 ds"

text \<open>
  The decimal digits of an integer, with a minus sign in front of a negative one. This is
  the text form JavaScript gives a number that is an integer below \<open>2^53\<close> in magnitude,
  which the fields of a date are.
\<close>

definition digitChar :: "nat \<Rightarrow> char" where
  "digitChar n = ''0123456789'' ! (n mod 10)"

function showNat :: "nat \<Rightarrow> string" where
  "showNat n = (if n < 10 then [digitChar n] else showNat (n div 10) @ [digitChar n])"
  by pat_completeness auto
termination
  by (relation "measure id") auto

definition showInt :: "int \<Rightarrow> string" where
  "showInt i = (if i < 0 then CHR ''-'' # showNat (nat (- i)) else showNat (nat i))"

text \<open>
  A JavaScript number is a finite value, one of the two infinities or \<open>NaN\<close>. The finite
  values of the model are the rationals, which every finite double is; the negative zero
  is the value 0, like which it is falsy and written.
\<close>

datatype JsNumber = Finite rat | PosInfinity | NegInfinity | NaN

text \<open>
  The text form of a number in a template literal. An integer below \<open>2^53\<close> in magnitude
  is written in its decimal digits and an infinity by its name. Every other finite number
  is written by the built-in conversion with the shortest digits that read back as the
  same double, with a fraction or, from \<open>1e+21\<close> on, an exponent: that conversion is the
  parameter \<open>otherText\<close>.
\<close>

definition numberToString :: "(rat \<Rightarrow> string) \<Rightarrow> JsNumber \<Rightarrow> string" where
  "numberToString otherText n =
     (case n of
        Finite q \<Rightarrow>
          if q = of_int \<lfloor>q\<rfloor> \<and> \<bar>q\<bar> < 2 ^ 53 then showInt \<lfloor>q\<rfloor> else otherText q
      | PosInfinity \<Rightarrow> ''Infinity''
      | NegInfinity \<Rightarrow> ''-Infinity''
      | NaN \<Rightarrow> ''NaN'')"

text \<open>\<open>Array.prototype.join\<close>.\<close>

fun joinStr :: "string \<Rightarrow> string list \<Rightarrow> string" where
  "joinStr sep [] = []"
| "joinStr sep [x] = x"
| "joinStr sep (x # y # ys) = x @ sep @ joinStr sep (y # ys)"

text \<open>\<open>String.prototype.trim\<close>.\<close>

definition trim :: "string \<Rightarrow> string" where
  "trim s = rev (dropWhile isSpace (rev (dropWhile isSpace s)))"

text \<open>\<open>s.split(c)\<close> for a separator of one code unit.\<close>

fun splitOn :: "char \<Rightarrow> string \<Rightarrow> string list" where
  "splitOn sep [] = [[]]"
| "splitOn sep (c # cs) =
     (case splitOn sep cs of
        [] \<Rightarrow> (if c = sep then [[], []] else [[c]])
      | w # ws \<Rightarrow> (if c = sep then [] # w # ws else (c # w) # ws))"

text \<open>
  A regular expression is modelled by its matcher at the start of a string: the length of
  the match there, or \<open>None\<close>. \<open>matchAll m s\<close> is \<open>s.match(re)\<close> for a global expression
  (the matches from left to right, none overlapping; \<open>null\<close> is the empty list) and
  \<open>replaceMatches m rep s\<close> is \<open>s.replace(re, rep)\<close> for a global expression and a
  replacement text without \<open>$\<close> patterns. After a match of length \<open>n\<close> the scan goes on
  behind it (one code unit further for an empty match).
\<close>

fun matchAll :: "(string \<Rightarrow> nat option) \<Rightarrow> string \<Rightarrow> string list" where
  "matchAll m [] = []"
| "matchAll m (c # cs) =
     (case m (c # cs) of
        Some n \<Rightarrow> take n (c # cs) # matchAll m (drop (n - 1) cs)
      | None \<Rightarrow> matchAll m cs)"

fun replaceMatches :: "(string \<Rightarrow> nat option) \<Rightarrow> string \<Rightarrow> string \<Rightarrow> string" where
  "replaceMatches m rep [] = []"
| "replaceMatches m rep (c # cs) =
     (case m (c # cs) of
        Some n \<Rightarrow> rep @ replaceMatches m rep (drop (n - 1) cs)
      | None \<Rightarrow> c # replaceMatches m rep cs)"

text \<open>
  \<open>String.prototype.replaceAll\<close> with a string pattern and a replacement without \<open>$\<close>
  patterns: every occurrence from left to right, none overlapping. An empty pattern
  matches between all code units.
\<close>

fun replaceOccurrences :: "string \<Rightarrow> string \<Rightarrow> string \<Rightarrow> string" where
  "replaceOccurrences pat rep [] = []"
| "replaceOccurrences pat rep (c # cs) =
     (if take (length pat) (c # cs) = pat
      then rep @ replaceOccurrences pat rep (drop (length pat - 1) cs)
      else c # replaceOccurrences pat rep cs)"

definition replaceAll :: "string \<Rightarrow> string \<Rightarrow> string \<Rightarrow> string" where
  "replaceAll s pat rep =
     (if pat = [] then rep @ concat (map (\<lambda>c. c # rep) s)
      else replaceOccurrences pat rep s)"

text \<open>\<open>s.includes(c)\<close> for a pattern of one code unit.\<close>

definition includesChar :: "string \<Rightarrow> char \<Rightarrow> bool" where
  "includesChar s c = (c \<in> set s)"

section \<open>The filter compiler: \<open>PaperFilterOptions\<close>\<close>

datatype SearchMode = general | fulltext | advanced

text \<open>
  The fields of the class. An optional field is an \<open>option\<close>; \<open>None\<close> is \<open>undefined\<close>.
  The limit is a number.
\<close>

record PaperFilterOptions =
  filters :: "string list"
  search :: "string option"
  searchMode :: "SearchMode option"
  flaged :: "bool option"
  tag :: "string option"
  folder :: "string option"
  limit :: "JsNumber option"

text \<open>JavaScript truthiness of an optional string, boolean and number.\<close>

definition truthyStr :: "string option \<Rightarrow> bool" where
  "truthyStr v = (case v of None \<Rightarrow> False | Some s \<Rightarrow> s \<noteq> [])"

definition truthyBool :: "bool option \<Rightarrow> bool" where
  "truthyBool v = (case v of None \<Rightarrow> False | Some b \<Rightarrow> b)"

definition truthyNum :: "JsNumber option \<Rightarrow> bool" where
  "truthyNum v =
     (case v of
        None \<Rightarrow> False
      | Some (Finite q) \<Rightarrow> q \<noteq> 0
      | Some PosInfinity \<Rightarrow> True
      | Some NegInfinity \<Rightarrow> True
      | Some NaN \<Rightarrow> False)"

subsection \<open>The relative-date macro\<close>

text \<open>
  The matcher of \<open>/\[\d+ DAYS\]/\<close>: an opening bracket, one or more digits, the text
  \<open> DAYS]\<close>. A digit is neither a space nor a bracket, so the greedy \<open>\d+\<close> never has
  to give a digit back.
\<close>

definition matchDays :: "string \<Rightarrow> nat option" where
  "matchDays s =
     (case s of
        [] \<Rightarrow> None
      | c # r \<Rightarrow>
          if c = CHR ''['' \<and> takeWhile isDigit r \<noteq> []
             \<and> take 6 (dropWhile isDigit r) = '' DAYS]''
          then Some (1 + length (takeWhile isDigit r) + 6)
          else None)"

text \<open>
  The matcher of \<open>/(<|<=|>|>=)\s*\[\d+ DAYS\]/\<close>. The alternatives of the group are
  tried in the order written, each followed by the rest of the expression.
\<close>

definition matchSpacedDays :: "string \<Rightarrow> nat option" where
  "matchSpacedDays r =
     (case matchDays (dropWhile isSpace r) of
        None \<Rightarrow> None
      | Some n \<Rightarrow> Some (length (takeWhile isSpace r) + n))"

fun matchAlternatives :: "string list \<Rightarrow> string \<Rightarrow> nat option" where
  "matchAlternatives [] s = None"
| "matchAlternatives (p # ps) s =
     (if take (length p) s = p
      then (case matchSpacedDays (drop (length p) s) of
              Some n \<Rightarrow> Some (length p + n)
            | None \<Rightarrow> matchAlternatives ps s)
      else matchAlternatives ps s)"

definition matchCompareDays :: "string \<Rightarrow> nat option" where
  "matchCompareDays s = matchAlternatives [''<'', ''<='', ''>'', ''>=''] s"

text \<open>
  Lines 88 to 105 of \<open>PaperFilterOptions.update\<close>: for every match of the comparison
  expression, in order, the current search string is tested for \<open><\<close> and then for
  \<open>>\<close>, and every occurrence of the match in it is rewritten.
\<close>

definition invertStep :: "string \<Rightarrow> string \<Rightarrow> string" where
  "invertStep formatedSearch match =
     (if includesChar formatedSearch CHR ''<''
      then replaceAll formatedSearch match (replaceAll match ''<'' ''>'')
      else if includesChar formatedSearch CHR ''>''
      then replaceAll formatedSearch match (replaceAll match ''>'' ''<'')
      else formatedSearch)"

definition invertComparisons :: "string \<Rightarrow> string" where
  "invertComparisons formatedSearch =
     foldl invertStep formatedSearch (matchAll matchCompareDays formatedSearch)"

text \<open>
  The built-in \<open>Date\<close>, as far as lines 111 to 116 use it. A date is its time value, the
  milliseconds since the epoch; \<open>now\<close> is the time value of \<open>new Date()\<close>. On a host
  whose local time keeps one offset from UTC over the days in question,
  \<open>date.setDate(date.getDate() - n)\<close> moves the time value back by \<open>n\<close> days of 86400000 ms.
  A time value beyond 8.64e15 ms in magnitude is an invalid date, on which \<open>toISOString\<close>
  throws a \<open>RangeError\<close>: that is \<open>None\<close>.
\<close>

definition padStart :: "nat \<Rightarrow> string \<Rightarrow> string" where
  "padStart n s = replicate (n - length s) (CHR ''0'') @ s"

text \<open>The civil date (year, month, day) of a day number counted from 1970-01-01.\<close>

definition civilFromDays :: "int \<Rightarrow> int \<times> int \<times> int" where
  "civilFromDays z =
     (let z1 = z + 719468;
          era = z1 div 146097;
          doe = z1 - era * 146097;
          yoe = (doe - doe div 1460 + doe div 36524 - doe div 146096) div 365;
          doy = doe - (365 * yoe + yoe div 4 - yoe div 100);
          mp = (5 * doy + 2) div 153;
          d = doy - (153 * mp + 2) div 5 + 1;
          m = (if mp < 10 then mp + 3 else mp - 9);
          y = yoe + era * 400 + (if m \<le> 2 then 1 else 0)
      in (y, m, d))"

definition isoYear :: "int \<Rightarrow> string" where
  "isoYear y =
     (if 0 \<le> y \<and> y \<le> 9999 then padStart 4 (showInt y)
      else (if y < 0 then CHR ''-'' else CHR ''+'') # padStart 6 (showInt \<bar>y\<bar>))"

definition toISOString :: "int \<Rightarrow> string option" where
  "toISOString t =
     (if \<bar>t\<bar> > 8640000000000000 then None
      else
        (let (y, m, d) = civilFromDays (t div 86400000);
             r = t mod 86400000
         in Some (isoYear y @ ''-'' @ padStart 2 (showInt m) @ ''-'' @ padStart 2 (showInt d)
              @ ''T'' @ padStart 2 (showInt (r div 3600000))
              @ '':'' @ padStart 2 (showInt (r div 60000 mod 60))
              @ '':'' @ padStart 2 (showInt (r div 1000 mod 60))
              @ ''.'' @ padStart 3 (showInt (r mod 1000)) @ ''Z'')))"

text \<open>\<open>s.replace(a, b)\<close> for one-unit strings replaces the first occurrence only.\<close>

fun replaceFirst :: "char \<Rightarrow> char \<Rightarrow> string \<Rightarrow> string" where
  "replaceFirst a b [] = []"
| "replaceFirst a b (c # cs) = (if c = a then b # cs else c # replaceFirst a b cs)"

text \<open>\<open>date.toISOString().slice(0, -5).replace("T", "@")\<close> for the date \<open>n\<close> days before \<open>now\<close>.\<close>

definition dateLiteral :: "int \<Rightarrow> nat \<Rightarrow> string option" where
  "dateLiteral now n =
     (case toISOString (now - 86400000 * int n) of
        None \<Rightarrow> None
      | Some str \<Rightarrow> Some (replaceFirst (CHR ''T'') (CHR ''@'') (take (length str - 5) str)))"

text \<open>
  Lines 107 to 118: the day count is read from the first match, \<open>dateMatch[0].slice(1, -6)\<close>,
  one date is computed from it and every match of the expression is replaced by
  that date's literal. \<open>None\<close> is the \<open>RangeError\<close>.
\<close>

definition expandDays :: "int \<Rightarrow> string \<Rightarrow> string option" where
  "expandDays now formatedSearch =
     (case matchAll matchDays formatedSearch of
        [] \<Rightarrow> Some formatedSearch
      | m0 # ms \<Rightarrow>
          (case dateLiteral now (parseInt (drop 1 (take (length m0 - 6) m0))) of
             None \<Rightarrow> None
           | Some lit \<Rightarrow> Some (replaceMatches matchDays lit formatedSearch)))"

subsection \<open>\<open>update\<close> and \<open>toString\<close>\<close>

text \<open>
  \<open>formatString\<close> is imported from \<open>@/base/string\<close>, which is not part of the sources at
  hand: \<open>fmt\<close> stands for \<open>formatString\<close> with \<open>removeNewline\<close> and \<open>trimWhite\<close> set.
\<close>

definition dq :: string where
  "dq = [CHR 0x22]"

definition generalClause :: "string \<Rightarrow> string" where
  "generalClause formatedSearch =
     (let fuzzyFormatedSearch =
            ''*'' @ joinStr ''*'' (splitOn (CHR '' '') (trim formatedSearch)) @ ''*''
      in ''(title LIKE[c] '' @ dq @ fuzzyFormatedSearch @ dq
         @ '' OR authors LIKE[c] '' @ dq @ fuzzyFormatedSearch @ dq
         @ '' OR publication LIKE[c] '' @ dq @ fuzzyFormatedSearch @ dq
         @ '' OR note LIKE[c] '' @ dq @ fuzzyFormatedSearch @ dq @ '')'')"

definition searchClauses :: "(string \<Rightarrow> string) \<Rightarrow> int \<Rightarrow> string \<Rightarrow> SearchMode option
    \<Rightarrow> string list option" where
  "searchClauses fmt now s mode =
     (let formatedSearch = fmt s in
      if mode = None \<or> mode = Some general then Some [generalClause formatedSearch]
      else if mode = Some advanced then
        (case expandDays now (invertComparisons formatedSearch) of
           None \<Rightarrow> None
         | Some clause \<Rightarrow> Some [clause])
      else if mode = Some fulltext then
        Some [''(fulltext contains[c] '' @ dq @ formatedSearch @ dq @ '')'']
      else Some [])"

text \<open>
  Lines 69 to 133: the clause list is rebuilt from the fields. \<open>None\<close> is the
  \<open>RangeError\<close> of the date macro, which leaves \<open>update\<close> by exception.
\<close>

definition rebuildFilters :: "(string \<Rightarrow> string) \<Rightarrow> int \<Rightarrow> PaperFilterOptions
    \<Rightarrow> PaperFilterOptions option" where
  "rebuildFilters fmt now this =
     (case (if truthyStr (search this)
            then (case search this of
                    Some s \<Rightarrow> searchClauses fmt now s (searchMode this)
                  | None \<Rightarrow> Some [])
            else Some []) of
        None \<Rightarrow> None
      | Some fs \<Rightarrow>
          Some (this\<lparr>filters :=
            fs
            @ (if truthyBool (flaged this) then [''(flag == true)''] else [])
            @ (case tag this of
                 Some t \<Rightarrow> if t \<noteq> [] then [''(ANY tags.name == '' @ dq @ t @ dq @ '')''] else []
               | None \<Rightarrow> [])
            @ (case folder this of
                 Some f \<Rightarrow> if f \<noteq> [] then [''(ANY folders.name == '' @ dq @ f @ dq @ '')''] else []
               | None \<Rightarrow> [])\<rparr>))"

text \<open>
  \<open>PaperFilterOptions.update\<close>, here \<open>updateOptions\<close> (the service has an \<open>update\<close> of its
  own). Its argument is a partial option object: a key is absent (\<open>None\<close>) or
  carries a value, which for an optional field may itself be \<open>undefined\<close>.
\<close>

record PartialOptions =
  setSearch :: "string option option"
  setSearchMode :: "SearchMode option option"
  setFlaged :: "bool option option"
  setTag :: "string option option"
  setFolder :: "string option option"
  setLimit :: "JsNumber option option"

definition assignOptions :: "PartialOptions \<Rightarrow> PaperFilterOptions \<Rightarrow> PaperFilterOptions" where
  "assignOptions options this =
     this\<lparr>search := (case setSearch options of Some v \<Rightarrow> v | None \<Rightarrow> search this),
          searchMode := (case setSearchMode options of Some v \<Rightarrow> v | None \<Rightarrow> searchMode this),
          flaged := (case setFlaged options of Some v \<Rightarrow> v | None \<Rightarrow> flaged this),
          tag := (case setTag options of Some v \<Rightarrow> v | None \<Rightarrow> tag this),
          folder := (case setFolder options of Some v \<Rightarrow> v | None \<Rightarrow> folder this),
          limit := (case setLimit options of Some v \<Rightarrow> v | None \<Rightarrow> limit this)\<rparr>"

definition updateOptions :: "(string \<Rightarrow> string) \<Rightarrow> int \<Rightarrow> PartialOptions \<Rightarrow> PaperFilterOptions
    \<Rightarrow> PaperFilterOptions option" where
  "updateOptions fmt now options this = rebuildFilters fmt now (assignOptions options this)"

text \<open>
  Lines 136 to 143. The limit is tested for truthiness, so the directive is left out for
  an unset limit, for 0 and for \<open>NaN\<close>.
\<close>

definition toString :: "(rat \<Rightarrow> string) \<Rightarrow> PaperFilterOptions \<Rightarrow> string" where
  "toString otherText this =
     (let filterStr = joinStr '' AND '' (filters this) in
      if truthyNum (limit this)
      then (case limit this of
              Some n \<Rightarrow> filterStr @ '' LIMIT('' @ numberToString otherText n @ '')''
            | None \<Rightarrow> filterStr)
      else filterStr)"

section \<open>Paper entities and categorizers\<close>

text \<open>
  The models \<open>@/models/categorizer\<close> and \<open>@/models/paper-entity\<close> are not part of the
  sources at hand. A categorizer is kept by its identity, in the text form \<open>`${_id}`\<close> that
  the service compares, and its name; tags and folders are categorizers. A paper entity
  keeps the fields the service reads and writes.
\<close>

record Categorizer =
  c_id :: string
  c_name :: string

datatype CategorizerType = PaperTag | PaperFolder

record PaperEntity =
  p_id :: string
  title :: string
  mainURL :: string
  supURLs :: "string list"
  tags :: "Categorizer list"
  folders :: "Categorizer list"

text \<open>
  Modelled from the spec: the constructors \<open>new PaperTag(categorizer)\<close> and
  \<open>new PaperFolder(categorizer)\<close> of \<open>@/models/categorizer\<close>, which is not under src. The
  spec has them build a membership from the categorizer, identified by the categorizer's
  identity.
\<close>

definition newPaperTag :: "Categorizer \<Rightarrow> Categorizer" where
  "newPaperTag categorizer = \<lparr>c_id = c_id categorizer, c_name = c_name categorizer\<rparr>"

definition newPaperFolder :: "Categorizer \<Rightarrow> Categorizer" where
  "newPaperFolder categorizer = \<lparr>c_id = c_id categorizer, c_name = c_name categorizer\<rparr>"

text \<open>
  Lines 423 to 439, the function \<open>updateWithCategorizer\<close> maps over the drafts: the
  memberships with the categorizer's identity are filtered out and a new one is pushed.
\<close>

definition upsertCategorizer :: "Categorizer \<Rightarrow> CategorizerType \<Rightarrow> PaperEntity \<Rightarrow> PaperEntity" where
  "upsertCategorizer categorizer type paperEntityDraft =
     (if type = PaperTag then
        paperEntityDraft\<lparr>tags :=
          filter (\<lambda>tag. c_id tag \<noteq> c_id categorizer) (tags paperEntityDraft)
          @ [newPaperTag categorizer]\<rparr>
      else if type = PaperFolder then
        paperEntityDraft\<lparr>folders :=
          filter (\<lambda>folder. c_id folder \<noteq> c_id categorizer) (folders paperEntityDraft)
          @ [newPaperFolder categorizer]\<rparr>
      else paperEntityDraft)"

text \<open>
  Modelled from the spec: the values of the enum \<open>CategorizerType\<close> (declared in
  \<open>@/models/categorizer\<close>, not under src) are truthy; the design notes of the spec record
  that the assignment in the condition of line 548 makes the folder branch unreachable.
\<close>

definition truthyType :: "CategorizerType \<Rightarrow> bool" where
  "truthyType type = True"

text \<open>
  Lines 546 to 555, the function \<open>createIntoCategorizer\<close> maps over the created drafts.
  The condition of line 548 is the assignment \<open>type = CategorizerType.PaperTag\<close>: it
  stores \<open>PaperTag\<close> in \<open>type\<close> and its value is the value stored.
\<close>

definition replaceCategorizer :: "Categorizer \<Rightarrow> CategorizerType \<Rightarrow> PaperEntity \<Rightarrow> PaperEntity" where
  "replaceCategorizer categorizer type paperEntityDraft =
     (let assigned = PaperTag in
      if truthyType assigned then paperEntityDraft\<lparr>tags := [newPaperTag categorizer]\<rparr>
      else if assigned = PaperFolder then
        paperEntityDraft\<lparr>folders := [newPaperFolder categorizer]\<rparr>
      else paperEntityDraft)"

text \<open>The memberships of one kind.\<close>

definition memberships :: "CategorizerType \<Rightarrow> PaperEntity \<Rightarrow> Categorizer list" where
  "memberships type d = (case type of PaperTag \<Rightarrow> tags d | PaperFolder \<Rightarrow> folders d)"

section \<open>Paths\<close>

text \<open>
  \<open>path.isAbsolute\<close> and \<open>path.basename\<close> of Node.js, in their POSIX form: a path is
  absolute when it starts with a slash; the base name is the last segment, trailing
  slashes left aside.
\<close>

definition isAbsolute :: "string \<Rightarrow> bool" where
  "isAbsolute p = (case p of [] \<Rightarrow> False | c # cs \<Rightarrow> c = CHR ''/'')"

definition basename :: "string \<Rightarrow> string" where
  "basename p =
     rev (takeWhile (\<lambda>c. c \<noteq> CHR ''/'') (dropWhile (\<lambda>c. c = CHR ''/'') (rev p)))"

section \<open>The paper service and its collaborators\<close>

text \<open>
  A call of a collaborator returns a value or throws. Every call is recorded as an event
  of the history, in the order of the calls; a write to the store is recorded with its
  outcome.
\<close>

datatype 'a outcome = Returns 'a | Throws

datatype Payload = FilePayload string | EntityPayload PaperEntity

datatype event =
    StoreRealm
  | StoreLoad string string string
  | StoreLoadByIds "string list"
  | StoreUpdate PaperEntity "bool outcome"
  | StoreDelete "string list option" "PaperEntity list option"
  | FileAccess string
  | FileMove PaperEntity bool "bool option"
  | FileRemove PaperEntity
  | FileMoveFile string string
  | FileRemoveFile string
  | CacheFullTextFilter string "PaperEntity list"
  | CacheUpdateFullText "PaperEntity list"
  | CacheDelete "string list"
  | ScrapeCall "Payload list" "string list" bool
  | PrefSetLastRematch int

text \<open>
  The collaborators (record store, file service, cache service, scrape service) are not
  under src. Each is a function from the history of calls so far and the arguments of the
  call to the outcome of the call, so an answer may depend on everything that happened
  before. Following their contracts in the spec, the store's \<open>update\<close> answers a boolean
  or throws and leaves the draft as it is, \<open>move\<close> answers a relocated draft or \<open>null\<close>
  (\<open>None\<close>) or throws. \<open>realm()\<close>, \<open>remove\<close>, \<open>moveFile\<close>, \<open>updateFullTextCache\<close> and the
  preference service do not throw; the log calls and the \<open>processing\<close> decorator are left
  out.
\<close>

record Collaborators =
  repoLoad :: "event list \<Rightarrow> string \<Rightarrow> string \<Rightarrow> string \<Rightarrow> PaperEntity list outcome"
  repoLoadByIds :: "event list \<Rightarrow> string list \<Rightarrow> PaperEntity list outcome"
  repoUpdate :: "event list \<Rightarrow> PaperEntity \<Rightarrow> bool outcome"
  repoDelete :: "event list \<Rightarrow> string list option \<Rightarrow> PaperEntity list option
    \<Rightarrow> string list outcome"
  fileAccess :: "event list \<Rightarrow> string \<Rightarrow> bool outcome"
  fileMove :: "event list \<Rightarrow> PaperEntity \<Rightarrow> bool \<Rightarrow> bool option \<Rightarrow> PaperEntity option outcome"
  fileRemoveFile :: "event list \<Rightarrow> string \<Rightarrow> unit outcome"
  cacheFullTextFilter :: "event list \<Rightarrow> string \<Rightarrow> PaperEntity list \<Rightarrow> PaperEntity list outcome"
  scrapeCall :: "event list \<Rightarrow> Payload list \<Rightarrow> string list \<Rightarrow> bool \<Rightarrow> PaperEntity list outcome"

text \<open>
  The state a call of the service runs in: what the database core reports for
  \<open>dbInitializing\<close> (no operation of the service changes it), the preferences
  \<open>sourceFileOperation\<close>, \<open>allowRoutineMatch\<close> and \<open>lastRematchTime\<close>, and the history.
\<close>

record ServiceState =
  dbInitializing :: bool
  sourceFileOperation :: string
  allowRoutineMatch :: bool
  lastRematchTime :: int
  history :: "event list"

definition emit :: "event \<Rightarrow> ServiceState \<Rightarrow> ServiceState" where
  "emit e st = st\<lparr>history := history st @ [e]\<rparr>"

text \<open>
  Modelled from the spec: the decorator \<open>errorcatching\<close> of \<open>@/base/error\<close>, which is not
  under src. An error that leaves the body of a public operation is caught at its
  boundary and turned into the default value of the decorator.
\<close>

definition errorcatching :: "'a \<Rightarrow> 'a outcome \<times> ServiceState \<Rightarrow> 'a \<times> ServiceState" where
  "errorcatching dflt r = (case fst r of Returns v \<Rightarrow> (v, snd r) | Throws \<Rightarrow> (dflt, snd r))"

text \<open>
  Modelled from the spec: \<open>chunkRun\<close> of \<open>@/base/chunk\<close>, which is not under src. The
  results are index-aligned with the items; where the worker fails, the fallback of the
  item stands in its place and the error is collected (the caller only logs the errors).
  The worker hands back the item as it has left it, the item being an object the worker
  changes in place. The items are taken in input order.
\<close>

fun chunkRun :: "('a \<Rightarrow> 's \<Rightarrow> 'b outcome \<times> 'a \<times> 's) \<Rightarrow> ('a \<Rightarrow> 'b) \<Rightarrow> 'a list \<Rightarrow> 's
    \<Rightarrow> 'b list \<times> 's" where
  "chunkRun worker fallback [] st = ([], st)"
| "chunkRun worker fallback (x # xs) st =
     (case worker x st of
        (r, x', st1) \<Rightarrow>
          (case chunkRun worker fallback xs st1 of
             (rs, st2) \<Rightarrow> ((case r of Returns v \<Rightarrow> v | Throws \<Rightarrow> fallback x') # rs, st2)))"

subsection \<open>\<open>update\<close>\<close>

text \<open>Lines 285 to 303, the worker of the first stage.\<close>

definition moveWorker :: "Collaborators \<Rightarrow> PaperEntity \<Rightarrow> ServiceState
    \<Rightarrow> PaperEntity option outcome \<times> PaperEntity \<times> ServiceState" where
  "moveWorker C paperEntityDraft st =
     (let st1 = emit (FileAccess (mainURL paperEntityDraft)) st in
      case fileAccess C (history st) (mainURL paperEntityDraft) of
        Throws \<Rightarrow> (Throws, paperEntityDraft, st1)
      | Returns accessible \<Rightarrow>
          (let draft1 = (if \<not> accessible \<and> mainURL paperEntityDraft \<noteq> []
                         then paperEntityDraft\<lparr>mainURL := []\<rparr> else paperEntityDraft);
               cut = (sourceFileOperation st1 = ''cut'')
           in (fileMove C (history st1) draft1 cut None, draft1,
               emit (FileMove draft1 cut None) st1)))"

text \<open>Lines 319 to 333, the function mapped over the relocated drafts.\<close>

definition normalizePaths :: "PaperEntity \<Rightarrow> PaperEntity" where
  "normalizePaths paperEntityDraft =
     (let draft1 = (if mainURL paperEntityDraft \<noteq> [] \<and> isAbsolute (mainURL paperEntityDraft)
                    then paperEntityDraft\<lparr>mainURL := []\<rparr>
                    else paperEntityDraft\<lparr>mainURL := basename (mainURL paperEntityDraft)\<rparr>)
      in draft1\<lparr>supURLs := filter (\<lambda>url. \<not> isAbsolute url) (supURLs draft1)\<rparr>)"

text \<open>
  The map of line 318 over the results of the first stage. A result that is \<open>null\<close> makes
  the read of its \<open>mainURL\<close> throw a \<open>TypeError\<close>.
\<close>

fun normalizeAll :: "PaperEntity option list \<Rightarrow> PaperEntity list outcome" where
  "normalizeAll [] = Returns []"
| "normalizeAll (None # rs) = Throws"
| "normalizeAll (Some d # rs) =
     (case normalizeAll rs of
        Throws \<Rightarrow> Throws
      | Returns ds \<Rightarrow> Returns (normalizePaths d # ds))"

text \<open>
  Lines 342 to 361, the writes to the store, one after the other. A write that throws
  counts as failed; a failed draft is \<open>null\<close> in the list of the updated drafts.
\<close>

fun persistAll :: "Collaborators \<Rightarrow> PaperEntity list \<Rightarrow> ServiceState
    \<Rightarrow> PaperEntity option list \<times> ServiceState" where
  "persistAll C [] st = ([], st)"
| "persistAll C (paperEntity # rest) st =
     (let r = repoUpdate C (history st) paperEntity;
          success = (case r of Returns b \<Rightarrow> b | Throws \<Rightarrow> False)
      in case persistAll C rest (emit (StoreUpdate paperEntity r) st) of
           (updated, st') \<Rightarrow> ((if success then Some paperEntity else None) # updated, st'))"

text \<open>
  Lines 364 to 378, over the indices of the updated drafts. An updated draft that is not
  \<open>null\<close> is the very object at the same index of the relocated drafts.
\<close>

fun reconcileFiles :: "(PaperEntity \<times> PaperEntity option) list \<Rightarrow> ServiceState \<Rightarrow> ServiceState" where
  "reconcileFiles [] st = st"
| "reconcileFiles ((fileMovedPaperEntityDraft, updatedPaperEntityDraft) # rest) st =
     reconcileFiles rest
       (case updatedPaperEntityDraft of
          None \<Rightarrow> emit (FileRemove fileMovedPaperEntityDraft) st
        | Some updated \<Rightarrow>
            if mainURL fileMovedPaperEntityDraft \<noteq> mainURL updated
            then emit (FileMoveFile (mainURL fileMovedPaperEntityDraft) (mainURL updated)) st
            else st)"

text \<open>\<open>updated.filter((draft) => draft !== null)\<close>.\<close>

fun notNull :: "'a option list \<Rightarrow> 'a list" where
  "notNull [] = []"
| "notNull (None # xs) = notNull xs"
| "notNull (Some x # xs) = x # notNull xs"

definition updateBody :: "Collaborators \<Rightarrow> PaperEntity list \<Rightarrow> ServiceState
    \<Rightarrow> PaperEntity list outcome \<times> ServiceState" where
  "updateBody C paperEntityDrafts st =
     (if dbInitializing st then (Returns [], st)
      else
        (case chunkRun (moveWorker C) Some paperEntityDrafts st of
           (results, st1) \<Rightarrow>
             (case normalizeAll results of
                Throws \<Rightarrow> (Throws, st1)
              | Returns fileMovedPaperEntityDrafts \<Rightarrow>
                  (case persistAll C fileMovedPaperEntityDrafts (emit StoreRealm st1) of
                     (updatedPaperEntityDrafts, st2) \<Rightarrow>
                       (let st3 = reconcileFiles
                                    (zip fileMovedPaperEntityDrafts updatedPaperEntityDrafts) st2;
                            successfulEntityDrafts = notNull updatedPaperEntityDrafts
                        in (Returns successfulEntityDrafts,
                            emit (CacheUpdateFullText successfulEntityDrafts) st3))))))"

definition update :: "Collaborators \<Rightarrow> PaperEntity list \<Rightarrow> ServiceState
    \<Rightarrow> PaperEntity list \<times> ServiceState" where
  "update C paperEntityDrafts st = errorcatching [] (updateBody C paperEntityDrafts st)"

subsection \<open>The other public operations\<close>

text \<open>A nested call of a public operation has returned: it does not throw.\<close>

definition returned :: "'a \<times> ServiceState \<Rightarrow> 'a outcome \<times> ServiceState" where
  "returned r = (Returns (fst r), snd r)"

text \<open>Lines 203 to 233. An absent \<open>sortBy\<close> is \<open>addTime\<close>.\<close>

definition load :: "Collaborators \<Rightarrow> string \<Rightarrow> string option \<Rightarrow> string \<Rightarrow> string option
    \<Rightarrow> ServiceState \<Rightarrow> PaperEntity list \<times> ServiceState" where
  "load C querySentence sortBy sortOrder fulltextQuerySentence st =
     errorcatching []
       (if dbInitializing st then (Returns [], st)
        else
          (let by = (case sortBy of None \<Rightarrow> ''addTime'' | Some s \<Rightarrow> s);
               st1 = emit StoreRealm st;
               st2 = emit (StoreLoad querySentence by sortOrder) st1
           in if truthyStr fulltextQuerySentence then
                (case repoLoad C (history st1) querySentence by sortOrder of
                   Throws \<Rightarrow> (Throws, st2)
                 | Returns allPaperEntities \<Rightarrow>
                     (let q = (case fulltextQuerySentence of None \<Rightarrow> [] | Some s \<Rightarrow> s)
                      in (cacheFullTextFilter C (history st2) q allPaperEntities,
                          emit (CacheFullTextFilter q allPaperEntities) st2)))
              else (repoLoad C (history st1) querySentence by sortOrder, st2)))"

text \<open>Lines 247 to 255.\<close>

definition loadByIds :: "Collaborators \<Rightarrow> string list \<Rightarrow> ServiceState
    \<Rightarrow> PaperEntity list \<times> ServiceState" where
  "loadByIds C ids st =
     errorcatching []
       (if dbInitializing st then (Returns [], st)
        else
          (let st1 = emit StoreRealm st
           in (repoLoadByIds C (history st1) ids, emit (StoreLoadByIds ids) st1)))"

text \<open>Lines 408 to 442. \<open>new PaperEntity(paperEntity)\<close> copies the entity.\<close>

definition updateWithCategorizer :: "Collaborators \<Rightarrow> string list \<Rightarrow> Categorizer
    \<Rightarrow> CategorizerType \<Rightarrow> ServiceState \<Rightarrow> unit \<times> ServiceState" where
  "updateWithCategorizer C ids categorizer type st =
     errorcatching ()
       (if dbInitializing st then (Returns (), st)
        else
          (case loadByIds C ids st of
             (paperEntities, st1) \<Rightarrow>
               (Returns (),
                snd (update C (map (upsertCategorizer categorizer type) paperEntities) st1))))"

text \<open>
  Lines 467 to 473: \<open>removeFile\<close> is called for every URL that is not empty, and
  \<open>Promise.all\<close> rejects when one of the calls does. The boolean tells whether one did.
\<close>

fun removeFiles :: "Collaborators \<Rightarrow> string list \<Rightarrow> ServiceState \<Rightarrow> bool \<times> ServiceState" where
  "removeFiles C [] st = (False, st)"
| "removeFiles C (url # urls) st =
     (if url \<noteq> [] then
        (case removeFiles C urls (emit (FileRemoveFile url) st) of
           (threw, st') \<Rightarrow> (threw \<or> fileRemoveFile C (history st) url = Throws, st'))
      else removeFiles C urls st)"

text \<open>Lines 451 to 477.\<close>

definition delete :: "Collaborators \<Rightarrow> string list option \<Rightarrow> PaperEntity list option
    \<Rightarrow> ServiceState \<Rightarrow> unit \<times> ServiceState" where
  "delete C ids paperEntities st =
     errorcatching ()
       (if dbInitializing st then (Returns (), st)
        else
          (let st1 = emit StoreRealm st;
               st2 = emit (StoreDelete ids paperEntities) st1
           in case repoDelete C (history st1) ids paperEntities of
                Throws \<Rightarrow> (Throws, st2)
              | Returns toBeDeletedFiles \<Rightarrow>
                  (case removeFiles C toBeDeletedFiles st2 of
                     (threw, st3) \<Rightarrow>
                       if threw then (Throws, st3)
                       else
                         (case (case ids of
                                  Some i \<Rightarrow> Some i
                                | None \<Rightarrow> map_option (map p_id) paperEntities) of
                            None \<Rightarrow> (Returns (), st3)
                          | Some cacheIds \<Rightarrow> (Returns (), emit (CacheDelete cacheIds) st3)))))"

text \<open>Lines 486 to 498. The operation has no test of \<open>dbInitializing\<close> of its own.\<close>

definition deleteSup :: "Collaborators \<Rightarrow> PaperEntity \<Rightarrow> string \<Rightarrow> ServiceState
    \<Rightarrow> unit \<times> ServiceState" where
  "deleteSup C paperEntity url st =
     errorcatching ()
       (let st1 = emit (FileRemoveFile url) st in
        case fileRemoveFile C (history st) url of
          Throws \<Rightarrow> (Throws, st1)
        | Returns u \<Rightarrow>
            (Returns (), snd (update C
               [paperEntity\<lparr>supURLs :=
                  filter (\<lambda>supUrl. supUrl \<noteq> basename url) (supURLs paperEntity)\<rparr>] st1)))"

text \<open>Lines 507 to 520. The operation has no test of \<open>dbInitializing\<close> of its own.\<close>

definition create :: "Collaborators \<Rightarrow> string list \<Rightarrow> ServiceState
    \<Rightarrow> PaperEntity list \<times> ServiceState" where
  "create C urlList st =
     errorcatching []
       (let payloads = map FilePayload urlList;
            st1 = emit (ScrapeCall payloads [] False) st
        in case scrapeCall C (history st) payloads [] False of
             Throws \<Rightarrow> (Throws, st1)
           | Returns scrapedPaperEntityDrafts \<Rightarrow>
               returned (update C scrapedPaperEntityDrafts st1))"

text \<open>Lines 536 to 557.\<close>

definition createIntoCategorizer :: "Collaborators \<Rightarrow> string list \<Rightarrow> Categorizer
    \<Rightarrow> CategorizerType \<Rightarrow> ServiceState \<Rightarrow> PaperEntity list \<times> ServiceState" where
  "createIntoCategorizer C urlList categorizer type st =
     errorcatching []
       (if dbInitializing st then (Returns [], st)
        else
          (case create C urlList st of
             (paperEntityDrafts, st1) \<Rightarrow>
               returned
                 (update C (map (replaceCategorizer categorizer type) paperEntityDrafts) st1)))"

text \<open>
  Lines 566 to 592. An absent list of scrapers is passed on as the empty list and the
  flag \<open>false\<close>, a given one with the flag \<open>true\<close>.
\<close>

definition scrape :: "Collaborators \<Rightarrow> PaperEntity list \<Rightarrow> string list option \<Rightarrow> ServiceState
    \<Rightarrow> unit \<times> ServiceState" where
  "scrape C paperEntities specificScrapers st =
     errorcatching ()
       (if dbInitializing st then (Returns (), st)
        else
          (let payloads = map EntityPayload paperEntities;
               scrapers = (case specificScrapers of None \<Rightarrow> [] | Some s \<Rightarrow> s);
               force = (specificScrapers \<noteq> None);
               st1 = emit (ScrapeCall payloads scrapers force) st
           in case scrapeCall C (history st) payloads scrapers force of
                Throws \<Rightarrow> (Throws, st1)
              | Returns scrapedPaperEntityDrafts \<Rightarrow>
                  (Returns (), snd (update C scrapedPaperEntityDrafts st1))))"

text \<open>
  \<open>Math.round(Date.now() / 1000)\<close> for a clock reading in milliseconds: \<open>Math.round\<close>
  rounds a half upwards.
\<close>

definition roundSeconds :: "int \<Rightarrow> int" where
  "roundSeconds ms = (ms + 500) div 1000"

definition preprintQuery :: string where
  "preprintQuery = ''(publication contains[c] '' @ dq @ ''arXiv'' @ dq
     @ '') OR (publication contains[c] '' @ dq @ ''openreview'' @ dq
     @ '') OR publication == '' @ dq @ dq"

text \<open>
  Lines 603 to 636, one firing of the task the constructor registers with the period
  \<open>7 * 86400\<close>. \<open>nowGuard\<close> is the reading of \<open>Date.now()\<close> in line 609 and \<open>nowStamp\<close> the
  one in line 633.
\<close>

definition scrapePreprint :: "Collaborators \<Rightarrow> int \<Rightarrow> int \<Rightarrow> ServiceState
    \<Rightarrow> unit \<times> ServiceState" where
  "scrapePreprint C nowGuard nowStamp st =
     errorcatching ()
       (if dbInitializing st then (Returns (), st)
        else if allowRoutineMatch st then
          (if roundSeconds nowGuard - lastRematchTime st < 7 * 86400 - 10 then (Returns (), st)
           else
             (let st1 = emit StoreRealm st;
                  st2 = emit (StoreLoad preprintQuery ''addTime'' ''desc'') st1
              in case repoLoad C (history st1) preprintQuery ''addTime'' ''desc'' of
                   Throws \<Rightarrow> (Throws, st2)
                 | Returns preprintPaperEntities \<Rightarrow>
                     (let st3 = snd (scrape C preprintPaperEntities None st2)
                      in (Returns (),
                          emit (PrefSetLastRematch (roundSeconds nowStamp))
                            (st3\<lparr>lastRematchTime := roundSeconds nowStamp\<rparr>)))))
        else (Returns (), st))"

text \<open>
  Lines 653 to 657: \<open>move\<close> is called for every draft, and \<open>Promise.all\<close> rejects when
  one of the calls does.
\<close>

fun moveAll :: "Collaborators \<Rightarrow> PaperEntity list \<Rightarrow> ServiceState
    \<Rightarrow> PaperEntity option outcome list \<times> ServiceState" where
  "moveAll C [] st = ([], st)"
| "moveAll C (d # ds) st =
     (case moveAll C ds (emit (FileMove d True (Some False)) st) of
        (rs, st') \<Rightarrow> (fileMove C (history st) d True (Some False) # rs, st'))"

text \<open>Lines 659 to 663: a result that is \<open>null\<close> gives way to the draft it came from.\<close>

fun fillNull :: "(PaperEntity option outcome \<times> PaperEntity) list \<Rightarrow> PaperEntity list" where
  "fillNull [] = []"
| "fillNull ((Returns (Some moved), d) # rest) = moved # fillNull rest"
| "fillNull ((r, d) # rest) = d # fillNull rest"

text \<open>Lines 643 to 666.\<close>

definition renameAll :: "Collaborators \<Rightarrow> ServiceState \<Rightarrow> unit \<times> ServiceState" where
  "renameAll C st =
     errorcatching ()
       (if dbInitializing st then (Returns (), st)
        else
          (case load C [] (Some ''title'') ''desc'' None st of
             (paperEntityDrafts, st1) \<Rightarrow>
               (case moveAll C paperEntityDrafts st1 of
                  (movedEntityDrafts, st2) \<Rightarrow>
                    if Throws \<in> set movedEntityDrafts then (Throws, st2)
                    else
                      (Returns (),
                       snd (update C (fillNull (zip movedEntityDrafts paperEntityDrafts)) st2)))))"

section \<open>What a history shows\<close>

text \<open>The events a call has added to the history it started from.\<close>

definition newEvents :: "ServiceState \<Rightarrow> ServiceState \<Rightarrow> event list" where
  "newEvents st st' = drop (length (history st)) (history st')"

text \<open>
  The writes to the store with their outcomes, the drafts the file removal was called
  with, and the drafts written with success and without.
\<close>

fun storeWrites :: "event list \<Rightarrow> (PaperEntity \<times> bool outcome) list" where
  "storeWrites [] = []"
| "storeWrites (StoreUpdate d r # es) = (d, r) # storeWrites es"
| "storeWrites (e # es) = storeWrites es"

fun fileRemoves :: "event list \<Rightarrow> PaperEntity list" where
  "fileRemoves [] = []"
| "fileRemoves (FileRemove d # es) = d # fileRemoves es"
| "fileRemoves (e # es) = fileRemoves es"

definition persisted :: "event list \<Rightarrow> PaperEntity list" where
  "persisted es = map fst (filter (\<lambda>w. snd w = Returns True) (storeWrites es))"

definition failedWrites :: "event list \<Rightarrow> PaperEntity list" where
  "failedWrites es = map fst (filter (\<lambda>w. snd w \<noteq> Returns True) (storeWrites es))"

text \<open>An event that touches the record store, the file system or the cache.\<close>

fun touches :: "event \<Rightarrow> bool" where
  "touches (ScrapeCall payloads scrapers force) = False"
| "touches (PrefSetLastRematch t) = False"
| "touches e = True"

text \<open>
  Every write the events \<open>es\<close> record, added to the history \<open>h\<close>, carries the answer the
  store gave to that very call: the answer of \<open>repoUpdate\<close> at the history of the call.
\<close>

fun answered :: "Collaborators \<Rightarrow> event list \<Rightarrow> event list \<Rightarrow> bool" where
  "answered C h [] = True"
| "answered C h (StoreUpdate d r # es) =
     (r = repoUpdate C h d \<and> answered C (h @ [StoreUpdate d r]) es)"
| "answered C h (e # es) = answered C (h @ [e]) es"

text \<open>A call of the file removal.\<close>

fun isFileRemove :: "event \<Rightarrow> bool" where
  "isFileRemove (FileRemove d) = True"
| "isFileRemove e = False"

section \<open>Managed storage\<close>

text \<open>
  The file references of a draft: its primary reference, unless it is empty, and its
  supplementary references.
\<close>

definition fileRefs :: "PaperEntity \<Rightarrow> string list" where
  "fileRefs d = (if mainURL d = [] then [] else [mainURL d]) @ supURLs d"

text \<open>
  Modelled from the spec: the effect of the file service (\<open>@/renderer/services/file-service\<close>,
  not under src) on managed storage, which the spec has as a flat name space of files
  keyed by name. A \<open>move\<close> that answers a relocated draft has put the files that draft
  references into managed storage, under the names the path normalization keeps; a
  \<open>move\<close> that throws or answers \<open>null\<close> has put nothing there. \<open>remove(draft)\<close> deletes
  the files the draft references, \<open>removeFile(url)\<close> the file of that base name, and
  \<open>moveFile\<close> renames a file. The storage is the list of its file names;
  \<open>storageAfter C h es S\<close> is the storage \<open>S\<close> after the events \<open>es\<close> that follow the
  history \<open>h\<close>, each \<open>move\<close> answering what \<open>fileMove\<close> answers at the history of its call.
\<close>

fun storageStep :: "Collaborators \<Rightarrow> event list \<Rightarrow> event \<Rightarrow> string list \<Rightarrow> string list" where
  "storageStep C h (FileMove d isCut third) S =
     (case fileMove C h d isCut third of
        Returns (Some moved) \<Rightarrow> S @ fileRefs (normalizePaths moved)
      | Returns None \<Rightarrow> S
      | Throws \<Rightarrow> S)"
| "storageStep C h (FileRemove d) S = filter (\<lambda>f. f \<notin> set (fileRefs d)) S"
| "storageStep C h (FileRemoveFile url) S = filter (\<lambda>f. f \<noteq> basename url) S"
| "storageStep C h (FileMoveFile a b) S = map (\<lambda>f. if f = a then b else f) S"
| "storageStep C h e S = S"

fun storageAfter :: "Collaborators \<Rightarrow> event list \<Rightarrow> event list \<Rightarrow> string list \<Rightarrow> string list" where
  "storageAfter C h [] S = S"
| "storageAfter C h (e # es) S = storageAfter C (h @ [e]) es (storageStep C h e S)"

section \<open>Notions for the proofs\<close>

text \<open>A state that differs from another one by the events added to its history.\<close>

definition extends :: "ServiceState \<Rightarrow> event list \<Rightarrow> ServiceState \<Rightarrow> bool" where
  "extends st es st' = (st' = st\<lparr>history := history st @ es\<rparr>)"

text \<open>What the loop of the writes pushes for a write and its outcome.\<close>

definition writeResult :: "PaperEntity \<times> bool outcome \<Rightarrow> PaperEntity option" where
  "writeResult w = (if snd w = Returns True then Some (fst w) else None)"

text \<open>No file reference of the draft is an absolute path.\<close>

definition pathsRelative :: "PaperEntity \<Rightarrow> bool" where
  "pathsRelative d = (\<not> isAbsolute (mainURL d) \<and> list_all (\<lambda>url. \<not> isAbsolute url) (supURLs d))"

section \<open>A concrete run\<close>

text \<open>
  Two drafts, collaborators and a state on which the operations are evaluated. The file
  service relocates the file of every draft but the one titled \<open>B\<close>, for which \<open>move\<close>
  throws; the store writes every draft but the one titled \<open>B\<close>, for which \<open>update\<close>
  throws; the store loads draft \<open>A\<close>; the scrape service answers the entities it is given and,
  for a file, a draft of that file with one tag and one folder.
\<close>

definition draftA :: PaperEntity where
  "draftA = \<lparr>p_id = ''1'', title = ''A'', mainURL = ''/tmp/a.pdf'',
     supURLs = [''/tmp/a-sup.pdf'', ''notes.txt''], tags = [], folders = []\<rparr>"

definition draftB :: PaperEntity where
  "draftB = \<lparr>p_id = ''2'', title = ''B'', mainURL = ''/tmp/b.pdf'',
     supURLs = [], tags = [], folders = []\<rparr>"

fun payloadEntities :: "Payload list \<Rightarrow> PaperEntity list" where
  "payloadEntities [] = []"
| "payloadEntities (EntityPayload d # ps) = d # payloadEntities ps"
| "payloadEntities (FilePayload url # ps) =
     \<lparr>p_id = [], title = basename url, mainURL = url, supURLs = [],
      tags = [\<lparr>c_id = ''t1'', c_name = ''ml''\<rparr>],
      folders = [\<lparr>c_id = ''f0'', c_name = ''Inbox''\<rparr>]\<rparr> # payloadEntities ps"

definition exampleCollaborators :: Collaborators where
  "exampleCollaborators =
     \<lparr>repoLoad = (\<lambda>h query sortBy sortOrder. Returns [draftA]),
      repoLoadByIds = (\<lambda>h ids. Returns []),
      repoUpdate = (\<lambda>h d. if title d = ''B'' then Throws else Returns True),
      repoDelete = (\<lambda>h ids paperEntities. Returns []),
      fileAccess = (\<lambda>h url. Returns True),
      fileMove = (\<lambda>h d cut third.
        if title d = ''B'' then Throws
        else Returns (Some (d\<lparr>mainURL := ''lib/'' @ basename (mainURL d)\<rparr>))),
      fileRemoveFile = (\<lambda>h url. Returns ()),
      cacheFullTextFilter = (\<lambda>h q ds. Returns ds),
      scrapeCall = (\<lambda>h payloads scrapers force. Returns (payloadEntities payloads))\<rparr>"

definition exampleState :: ServiceState where
  "exampleState = \<lparr>dbInitializing = False, sourceFileOperation = ''cut'',
     allowRoutineMatch = True, lastRematchTime = 1700000000, history = []\<rparr>"

definition initializingState :: ServiceState where
  "initializingState = \<lparr>dbInitializing = True, sourceFileOperation = ''cut'',
     allowRoutineMatch = True, lastRematchTime = 1700000000, history = []\<rparr>"

text \<open>
  A second set of collaborators: the file service relocates every file, the store throws
  for the draft titled \<open>B\<close> and answers \<open>false\<close> to a draft it has written before, and
  files are copied, not cut.
\<close>

definition dedupeCollaborators :: Collaborators where
  "dedupeCollaborators =
     \<lparr>repoLoad = (\<lambda>h query sortBy sortOrder. Returns []),
      repoLoadByIds = (\<lambda>h ids. Returns []),
      repoUpdate = (\<lambda>h d.
        if title d = ''B'' then Throws
        else if (d, Returns True) \<in> set (storeWrites h) then Returns False
        else Returns True),
      repoDelete = (\<lambda>h ids paperEntities. Returns []),
      fileAccess = (\<lambda>h url. Returns True),
      fileMove = (\<lambda>h d cut third.
        Returns (Some (d\<lparr>mainURL := ''lib/'' @ basename (mainURL d),
                         supURLs := map basename (supURLs d)\<rparr>))),
      fileRemoveFile = (\<lambda>h url. Returns ()),
      cacheFullTextFilter = (\<lambda>h q ds. Returns ds),
      scrapeCall = (\<lambda>h payloads scrapers force. Returns [])\<rparr>"

definition copyState :: ServiceState where
  "copyState = \<lparr>dbInitializing = False, sourceFileOperation = ''copy'',
     allowRoutineMatch = True, lastRematchTime = 1700000000, history = []\<rparr>"

section \<open>Theorems on the filter compiler\<close>

text \<open>
  C1. The claim: every comparison operator in front of a \<open>[N DAYS]\<close> token is inverted,
  whatever other comparison characters the search string holds. The code decides which
  way to rewrite a match by looking for \<open><\<close> in the whole search string, not in the match.
  On the advanced-mode search \<open>addTime > [3 DAYS] AND rating < 5\<close> the match is
  \<open>> [3 DAYS]\<close>, the string holds a \<open><\<close>, so the match is rewritten with \<open><\<close> replaced by
  \<open>>\<close>, which leaves it as it is: the operator in front of the macro stays \<open>>\<close>, also in the
  clause that is compiled (with \<open>formatString\<close> leaving this string as it is). On
  \<open>a < [1 DAYS] OR b > [1 DAYS]\<close> the first operator is inverted twice and ends as it began.
\<close>

theorem invertComparisons_other_operator:
  "matchAll matchCompareDays ''addTime > [3 DAYS] AND rating < 5'' = [''> [3 DAYS]'']
   \<and> invertComparisons ''addTime > [3 DAYS] AND rating < 5''
       = ''addTime > [3 DAYS] AND rating < 5''
   \<and> searchClauses (\<lambda>s. s) 1613842215000 ''addTime > [3 DAYS] AND rating < 5'' (Some advanced)
       = Some [''addTime > 2021-02-17@17:30:15 AND rating < 5'']
   \<and> invertComparisons ''a < [1 DAYS] OR b > [1 DAYS]'' = ''a < [1 DAYS] OR b < [1 DAYS]''"
  by code_simp

text \<open>
  C2. The claim: every \<open>[N DAYS]\<close> token is replaced by the timestamp of now minus its own
  N days. The code reads the day count of the first token only and replaces every token
  by that one literal. At the clock reading 1613842215000 (2021-02-20 17:30:15 UTC) the
  tokens \<open>[1 DAYS]\<close> and \<open>[2 DAYS]\<close> of one search string both become the literal of one
  day ago, while the literal of two days ago is another one.
\<close>

theorem expandDays_first_count_only:
  "expandDays 1613842215000 ''a > [1 DAYS] AND b > [2 DAYS]''
     = Some ''a > 2021-02-19@17:30:15 AND b > 2021-02-19@17:30:15''
   \<and> dateLiteral 1613842215000 1 = Some ''2021-02-19@17:30:15''
   \<and> dateLiteral 1613842215000 2 = Some ''2021-02-18@17:30:15''"
  by code_simp

text \<open>
  C10. The claim: the string \<open>toString\<close> returns ends with a directive \<open> LIMIT(n)\<close> if and
  only if the limit holds a nonzero value. What holds: \<open>toString\<close> returns the clauses
  joined by \<open> AND \<close> and appends the directive \<open> LIMIT(n)\<close> to them exactly when the limit
  is a truthy number, that is any number but 0 and \<open>NaN\<close>; a limit of 0 (and \<open>NaN\<close>) gives
  the same string as an unset limit; with a truthy limit and no clauses the string is the
  directive with its leading space. The number is written in decimal digits when it is an
  integer below \<open>2^53\<close> in magnitude. The joined clauses may themselves end in a directive
  (the last theorem of this section).
\<close>

theorem toString_appends_directive:
  "toString otherText (this\<lparr>limit := Some (Finite 0)\<rparr>) = toString otherText (this\<lparr>limit := None\<rparr>)
   \<and> toString otherText (this\<lparr>limit := Some NaN\<rparr>) = toString otherText (this\<lparr>limit := None\<rparr>)
   \<and> (\<not> truthyNum (limit this)
        \<longrightarrow> toString otherText this = joinStr '' AND '' (filters this))
   \<and> (limit this = Some n \<and> truthyNum (Some n)
        \<longrightarrow> toString otherText this
            = joinStr '' AND '' (filters this) @ '' LIMIT('' @ numberToString otherText n @ '')'')
   \<and> (limit this = Some n \<and> truthyNum (Some n) \<and> filters this = []
        \<longrightarrow> toString otherText this = '' LIMIT('' @ numberToString otherText n @ '')'')
   \<and> truthyNum (Some n) = (n \<noteq> NaN \<and> n \<noteq> Finite 0)
   \<and> (\<bar>k\<bar> < 2 ^ 53 \<longrightarrow> numberToString otherText (Finite (of_int k)) = showInt k)
   \<and> (toString otherText this \<noteq> joinStr '' AND '' (filters this)) = truthyNum (limit this)"
proof -
  have t: "truthyNum (Some n) = (n \<noteq> NaN \<and> n \<noteq> Finite 0)"
    by (cases n) (simp_all add: truthyNum_def)
  have r: "\<bar>k\<bar> < 2 ^ 53 \<longrightarrow> numberToString otherText (Finite (of_int k)) = showInt k"
  proof
    assume "\<bar>k\<bar> < 2 ^ 53"
    then have "\<bar>(of_int k :: rat)\<bar> < 2 ^ 53"
      by (metis of_int_abs of_int_less_iff of_int_numeral of_int_power)
    then show "numberToString otherText (Finite (of_int k)) = showInt k"
      by (simp add: numberToString_def)
  qed
  have d: "toString otherText this
      = joinStr '' AND '' (filters this)
        @ (case limit this of
             None \<Rightarrow> []
           | Some m \<Rightarrow> if truthyNum (Some m) then '' LIMIT('' @ numberToString otherText m @ '')''
                       else [])"
    by (cases "limit this") (simp_all add: toString_def Let_def truthyNum_def)
  have z: "toString otherText (this\<lparr>limit := Some (Finite 0)\<rparr>)
        = toString otherText (this\<lparr>limit := None\<rparr>)"
      "toString otherText (this\<lparr>limit := Some NaN\<rparr>) = toString otherText (this\<lparr>limit := None\<rparr>)"
    by (simp_all add: toString_def Let_def truthyNum_def)
  show ?thesis
    using t r z d by (cases "limit this") (auto simp add: truthyNum_def)
qed

theorem toString_appends_directive_witness:
  "toString (\<lambda>q. []) \<lparr>filters = [''(flag == true)''], search = None, searchMode = None,
      flaged = Some True, tag = None, folder = None, limit = Some (Finite 0)\<rparr>
       = ''(flag == true)''
   \<and> toString (\<lambda>q. []) \<lparr>filters = [''(flag == true)''], search = None, searchMode = None,
      flaged = Some True, tag = None, folder = None, limit = Some (Finite 25)\<rparr>
       = ''(flag == true) LIMIT(25)''
   \<and> toString (\<lambda>q. []) \<lparr>filters = [], search = None, searchMode = None,
      flaged = None, tag = None, folder = None, limit = Some (Finite 25)\<rparr> = '' LIMIT(25)''"
proof -
  have s25: "numberToString (\<lambda>q. []) (Finite 25) = ''25''"
    by code_simp
  have t0: "\<not> truthyNum (Some (Finite 0))" and t25: "truthyNum (Some (Finite 25))"
    by (simp_all add: truthyNum_def)
  note dir = toString_appends_directive [THEN conjunct2, THEN conjunct2]
  have a: "toString (\<lambda>q. []) \<lparr>filters = [''(flag == true)''], search = None,
      searchMode = None, flaged = Some True, tag = None, folder = None,
      limit = Some (Finite 0)\<rparr> = ''(flag == true)''"
    using dir [THEN conjunct1, of "\<lparr>filters = [''(flag == true)''], search = None,
        searchMode = None, flaged = Some True, tag = None, folder = None,
        limit = Some (Finite 0)\<rparr>" "\<lambda>q. []"] t0
    by simp
  have b: "toString (\<lambda>q. []) \<lparr>filters = [''(flag == true)''], search = None,
      searchMode = None, flaged = Some True, tag = None, folder = None,
      limit = Some (Finite 25)\<rparr> = ''(flag == true) LIMIT(25)''"
    using dir [THEN conjunct2, THEN conjunct1, of "\<lparr>filters = [''(flag == true)''],
        search = None, searchMode = None, flaged = Some True, tag = None, folder = None,
        limit = Some (Finite 25)\<rparr>" "Finite 25" "\<lambda>q. []"] t25
    by (simp add: s25)
  have c: "toString (\<lambda>q. []) \<lparr>filters = [], search = None, searchMode = None,
      flaged = None, tag = None, folder = None, limit = Some (Finite 25)\<rparr> = '' LIMIT(25)''"
    using dir [THEN conjunct2, THEN conjunct2, THEN conjunct1, of "\<lparr>filters = [],
        search = None, searchMode = None, flaged = None, tag = None, folder = None,
        limit = Some (Finite 25)\<rparr>" "Finite 25" "\<lambda>q. []"] t25
    by (simp add: s25)
  from a b c show ?thesis by simp
qed

text \<open>
  The claim of C10 as it stands fails on an advanced search that ends in a directive of
  its own, which the compiler passes on as a clause: for the options
  \<open>{search: "rating > 3 LIMIT(5)", searchMode: "advanced"}\<close> the limit is unset and the
  string returned ends with \<open> LIMIT(5)\<close>.
\<close>

theorem toString_directive_from_search:
  "(case updateOptions (\<lambda>s. s) 1613842215000
       \<lparr>setSearch = Some (Some ''rating > 3 LIMIT(5)''), setSearchMode = Some (Some advanced),
        setFlaged = None, setTag = None, setFolder = None, setLimit = None\<rparr>
       \<lparr>filters = [], search = None, searchMode = None, flaged = None, tag = None,
        folder = None, limit = None\<rparr> of
      None \<Rightarrow> False
    | Some this \<Rightarrow>
        limit this = None
        \<and> toString (\<lambda>q. []) this = ''rating > 3 LIMIT(5)''
        \<and> suffix '' LIMIT(5)'' (toString (\<lambda>q. []) this))"
  by code_simp

section \<open>Theorems on the categorizer memberships\<close>

text \<open>
  C8. The membership change of \<open>updateWithCategorizer\<close> is idempotent: applied once or
  twice with the same categorizer it leaves exactly one membership of the categorizer's
  identity in the list of the kind; the memberships of other identities stay as they were,
  in their order, and so does the list of the other kind.
\<close>

theorem upsertCategorizer_idempotent:
  "upsertCategorizer c ty (upsertCategorizer c ty d) = upsertCategorizer c ty d
   \<and> length (filter (\<lambda>m. c_id m = c_id c) (memberships ty (upsertCategorizer c ty d))) = 1
   \<and> length (filter (\<lambda>m. c_id m = c_id c)
        (memberships ty (upsertCategorizer c ty (upsertCategorizer c ty d)))) = 1
   \<and> filter (\<lambda>m. c_id m \<noteq> c_id c) (memberships ty (upsertCategorizer c ty d))
       = filter (\<lambda>m. c_id m \<noteq> c_id c) (memberships ty d)
   \<and> tags (upsertCategorizer c PaperFolder d) = tags d
   \<and> folders (upsertCategorizer c PaperTag d) = folders d"
  by (cases ty)
    (simp_all add: upsertCategorizer_def memberships_def newPaperTag_def newPaperFolder_def)

text \<open>
  C4. The claim: for the kind folder, \<open>createIntoCategorizer\<close> leaves the draft with the
  single folder membership and its tags untouched. The condition of line 548 assigns
  where it should compare, so the tag branch is taken for every kind: for the kind folder
  the tags of the draft are replaced by one tag built from the folder categorizer and the
  folders stay as they were, in the function mapped over the drafts and in what the
  operation returns for a file whose scraped draft has the tag \<open>ml\<close> and the folder
  \<open>Inbox\<close>.
\<close>

theorem replaceCategorizer_folder_sets_tags:
  "replaceCategorizer \<lparr>c_id = ''f1'', c_name = ''Reading''\<rparr> PaperFolder
     \<lparr>p_id = ''p1'', title = ''A'', mainURL = ''a.pdf'', supURLs = [],
      tags = [\<lparr>c_id = ''t1'', c_name = ''ml''\<rparr>],
      folders = [\<lparr>c_id = ''f0'', c_name = ''Inbox''\<rparr>]\<rparr>
   = \<lparr>p_id = ''p1'', title = ''A'', mainURL = ''a.pdf'', supURLs = [],
      tags = [\<lparr>c_id = ''f1'', c_name = ''Reading''\<rparr>],
      folders = [\<lparr>c_id = ''f0'', c_name = ''Inbox''\<rparr>]\<rparr>
   \<and> fst (createIntoCategorizer exampleCollaborators [''/tmp/x.pdf'']
        \<lparr>c_id = ''f1'', c_name = ''Reading''\<rparr> PaperFolder exampleState)
   = [\<lparr>p_id = [], title = ''x.pdf'', mainURL = ''x.pdf'', supURLs = [],
       tags = [\<lparr>c_id = ''f1'', c_name = ''Reading''\<rparr>],
       folders = [\<lparr>c_id = ''f0'', c_name = ''Inbox''\<rparr>]\<rparr>]"
  by code_simp

section \<open>Theorems on the update pipeline\<close>

text \<open>
  Every stage of \<open>update\<close> only adds events to the history. The lemmas follow the
  stages: the relocation writes nothing to the store and removes nothing, the loop of
  the writes adds one write per draft in order, the reconciliation removes the drafts
  whose write failed.
\<close>

lemma history_emit [simp]: "history (emit e st) = history st @ [e]"
  by (simp add: emit_def)

lemma storeWrites_append [simp]: "storeWrites (xs @ ys) = storeWrites xs @ storeWrites ys"
  by (induction xs rule: storeWrites.induct) simp_all

lemma fileRemoves_append [simp]: "fileRemoves (xs @ ys) = fileRemoves xs @ fileRemoves ys"
  by (induction xs rule: fileRemoves.induct) simp_all

lemma extends_emit: "extends st [e] (emit e st)"
  by (simp add: extends_def emit_def)

lemma extends_refl: "extends st [] st"
  by (simp add: extends_def)

lemma extends_trans: "extends st es st1 \<Longrightarrow> extends st1 es' st2 \<Longrightarrow> extends st (es @ es') st2"
  by (simp add: extends_def)

lemma moveWorker_extends:
  "\<exists>es. extends st es (snd (snd (moveWorker C d st))) \<and> storeWrites es = [] \<and> fileRemoves es = []"
proof (cases "fileAccess C (history st) (mainURL d)")
  case Throws
  then have "snd (snd (moveWorker C d st)) = emit (FileAccess (mainURL d)) st"
    by (simp add: moveWorker_def)
  then show ?thesis
    using extends_emit [of st "FileAccess (mainURL d)"] by (intro exI [of _ "[FileAccess (mainURL d)]"]) simp
next
  case (Returns ok)
  define d1 where "d1 = (if \<not> ok \<and> mainURL d \<noteq> [] then d\<lparr>mainURL := []\<rparr> else d)"
  define cut where "cut = (sourceFileOperation st = ''cut'')"
  have "snd (snd (moveWorker C d st))
      = emit (FileMove d1 cut None) (emit (FileAccess (mainURL d)) st)"
    using Returns by (simp add: moveWorker_def Let_def d1_def cut_def emit_def)
  then show ?thesis
    by (intro exI [of _ "[FileAccess (mainURL d), FileMove d1 cut None]"])
       (simp add: extends_def emit_def)
qed

lemma chunkRun_moveWorker_extends:
  "\<exists>es. extends st es (snd (chunkRun (moveWorker C) Some ds st))
     \<and> storeWrites es = [] \<and> fileRemoves es = []"
proof (induction ds arbitrary: st)
  case Nil
  show ?case using extends_refl [of st] by (intro exI [of _ "[]"]) simp
next
  case (Cons d ds)
  obtain r d' st1 where w: "moveWorker C d st = (r, d', st1)"
    by (cases "moveWorker C d st") auto
  obtain es1 where e1: "extends st es1 st1" "storeWrites es1 = []" "fileRemoves es1 = []"
    using moveWorker_extends [of st C d] w by auto
  obtain es2 where e2: "extends st1 es2 (snd (chunkRun (moveWorker C) Some ds st1))"
      "storeWrites es2 = []" "fileRemoves es2 = []"
    using Cons.IH [of st1] by auto
  have "snd (chunkRun (moveWorker C) Some (d # ds) st) = snd (chunkRun (moveWorker C) Some ds st1)"
    using w by (simp split: prod.splits)
  then show ?case
    using extends_trans [OF e1(1) e2(1)] e1 e2 by (intro exI [of _ "es1 @ es2"]) simp
qed


lemma persistAll_extends:
  "\<exists>es. extends st es (snd (persistAll C ds st)) \<and> map fst (storeWrites es) = ds
     \<and> fileRemoves es = []
     \<and> fst (persistAll C ds st) = map writeResult (storeWrites es)"
proof (induction ds arbitrary: st)
  case Nil
  show ?case using extends_refl [of st] by (intro exI [of _ "[]"]) simp
next
  case (Cons d ds)
  define r where "r = repoUpdate C (history st) d"
  define st1 where "st1 = emit (StoreUpdate d r) st"
  obtain es where e: "extends st1 es (snd (persistAll C ds st1))"
      "map fst (storeWrites es) = ds" "fileRemoves es = []"
      "fst (persistAll C ds st1) = map writeResult (storeWrites es)"
    using Cons.IH [of st1] by auto
  have s: "snd (persistAll C (d # ds) st) = snd (persistAll C ds st1)"
    by (simp add: Let_def r_def st1_def split: prod.splits)
  have f: "fst (persistAll C (d # ds) st) = writeResult (d, r) # fst (persistAll C ds st1)"
    by (cases r) (auto simp add: Let_def r_def st1_def writeResult_def split: prod.splits)
  have "extends st (StoreUpdate d r # es) (snd (persistAll C (d # ds) st))"
    using extends_trans [OF extends_emit [of st "StoreUpdate d r"]] e(1) s st1_def by fastforce
  then show ?case
    using e f by (intro exI [of _ "StoreUpdate d r # es"]) simp
qed

lemma reconcileFiles_extends:
  "\<exists>es. extends st es (reconcileFiles zs st) \<and> storeWrites es = []
     \<and> fileRemoves es = map fst (filter (\<lambda>z. snd z = None) zs)"
proof (induction zs arbitrary: st)
  case Nil
  show ?case using extends_refl [of st] by (intro exI [of _ "[]"]) simp
next
  case (Cons z zs)
  obtain m u where z: "z = (m, u)" by (cases z)
  define st1 where "st1 = (case u of None \<Rightarrow> emit (FileRemove m) st
      | Some v \<Rightarrow> if mainURL m \<noteq> mainURL v then emit (FileMoveFile (mainURL m) (mainURL v)) st
                  else st)"
  obtain es1 where e1: "extends st es1 st1" "storeWrites es1 = []"
      "fileRemoves es1 = map fst (filter (\<lambda>z. snd z = None) [z])"
  proof (cases u)
    case None
    then show ?thesis
      using that [of "[FileRemove m]"] extends_emit [of st "FileRemove m"] z
      by (simp add: st1_def)
  next
    case (Some v)
    show ?thesis
    proof (cases "mainURL m \<noteq> mainURL v")
      case True
      then show ?thesis
        using that [of "[FileMoveFile (mainURL m) (mainURL v)]"]
          extends_emit [of st "FileMoveFile (mainURL m) (mainURL v)"] z Some
        by (simp add: st1_def)
    next
      case False
      then show ?thesis
        using that [of "[]"] extends_refl [of st] z Some by (simp add: st1_def)
    qed
  qed
  obtain es2 where e2: "extends st1 es2 (reconcileFiles zs st1)" "storeWrites es2 = []"
      "fileRemoves es2 = map fst (filter (\<lambda>z. snd z = None) zs)"
    using Cons.IH [of st1] by auto
  have "reconcileFiles (z # zs) st = reconcileFiles zs st1"
    by (simp add: z st1_def)
  then show ?case
    using extends_trans [OF e1(1) e2(1)] e1 e2 by (intro exI [of _ "es1 @ es2"]) simp
qed

lemma failed_of_zip:
  "map fst (filter (\<lambda>z. snd z = None) (zip (map fst ws) (map writeResult ws)))
     = map fst (filter (\<lambda>w. snd w \<noteq> Returns True) ws)"
  by (induction ws) (simp_all add: writeResult_def)

lemma notNull_writeResult:
  "notNull (map writeResult ws) = map fst (filter (\<lambda>w. snd w = Returns True) ws)"
  by (induction ws) (simp_all add: writeResult_def)


lemma basename_no_slash: "CHR ''/'' \<notin> set (basename p)"
proof
  assume "CHR ''/'' \<in> set (basename p)"
  then have "CHR ''/'' \<in> set (takeWhile (\<lambda>c. c \<noteq> CHR ''/'') (dropWhile (\<lambda>c. c = CHR ''/'') (rev p)))"
    by (simp add: basename_def)
  then show False
    by (auto dest: set_takeWhileD)
qed

lemma isAbsolute_slash: "isAbsolute p \<Longrightarrow> CHR ''/'' \<in> set p"
  by (cases p) (simp_all add: isAbsolute_def)

lemma basename_not_absolute: "\<not> isAbsolute (basename p)"
  using basename_no_slash isAbsolute_slash by blast

lemma isAbsolute_Nil: "\<not> isAbsolute []"
  by (simp add: isAbsolute_def)

lemma normalizePaths_relative: "pathsRelative (normalizePaths d)"
  by (simp add: pathsRelative_def normalizePaths_def Let_def basename_not_absolute
      isAbsolute_Nil list_all_iff)

lemma normalizeAll_Returns:
  "normalizeAll rs = Returns ms \<Longrightarrow> ms = map normalizePaths (notNull rs) \<and> None \<notin> set rs"
  by (induction rs arbitrary: ms rule: normalizeAll.induct) (auto split: outcome.splits)

lemma normalizeAll_relative: "normalizeAll rs = Returns ms \<Longrightarrow> list_all pathsRelative ms"
  using normalizeAll_Returns [of rs ms] by (simp add: list_all_iff normalizePaths_relative)

lemma persisted_Nil: "storeWrites es = [] \<Longrightarrow> persisted es = [] \<and> failedWrites es = []"
  by (simp add: persisted_def failedWrites_def)

lemma updateBody_events:
  "\<exists>es. extends st es (snd (updateBody C ds st))
     \<and> (fst (updateBody C ds st) = Returns (persisted es)
          \<or> fst (updateBody C ds st) = Throws \<and> storeWrites es = [])
     \<and> fileRemoves es = failedWrites es
     \<and> list_all pathsRelative (map fst (storeWrites es))
     \<and> (\<forall>ms. \<not> dbInitializing st
            \<and> normalizeAll (fst (chunkRun (moveWorker C) Some ds st)) = Returns ms
          \<longrightarrow> map fst (storeWrites es) = ms)"
proof (cases "dbInitializing st")
  case True
  then have "updateBody C ds st = (Returns [], st)"
    by (simp add: updateBody_def)
  then show ?thesis
    using extends_refl [of st] True
    by (intro exI [of _ "[]"]) (simp add: persisted_def failedWrites_def)
next
  case False
  obtain results st1 where c: "chunkRun (moveWorker C) Some ds st = (results, st1)"
    by (cases "chunkRun (moveWorker C) Some ds st") auto
  obtain es1 where e1: "extends st es1 st1" "storeWrites es1 = []" "fileRemoves es1 = []"
    using chunkRun_moveWorker_extends [of st C ds] c by auto
  show ?thesis
  proof (cases "normalizeAll results")
    case Throws
    then have "updateBody C ds st = (Throws, st1)"
      using False c by (simp add: updateBody_def)
    then show ?thesis
      using e1 c Throws by (intro exI [of _ es1]) (simp add: persisted_def failedWrites_def)
  next
    case (Returns ms)
    define st1' where "st1' = emit StoreRealm st1"
    obtain es2 where e2: "extends st1' es2 (snd (persistAll C ms st1'))"
        "map fst (storeWrites es2) = ms" "fileRemoves es2 = []"
        "fst (persistAll C ms st1') = map writeResult (storeWrites es2)"
      using persistAll_extends [of st1' C ms] by auto
    define us where "us = fst (persistAll C ms st1')"
    define st2 where "st2 = snd (persistAll C ms st1')"
    obtain es3 where e3: "extends st2 es3 (reconcileFiles (zip ms us) st2)"
        "storeWrites es3 = []"
        "fileRemoves es3 = map fst (filter (\<lambda>z. snd z = None) (zip ms us))"
      using reconcileFiles_extends [of st2 "zip ms us"] by auto
    define st3 where "st3 = reconcileFiles (zip ms us) st2"
    define es where "es = es1 @ [StoreRealm] @ es2 @ es3 @ [CacheUpdateFullText (notNull us)]"
    have body: "updateBody C ds st
        = (Returns (notNull us), emit (CacheUpdateFullText (notNull us)) st3)"
      using False c Returns
      by (simp add: updateBody_def Let_def us_def st2_def st3_def st1'_def split: prod.splits)
    have ext: "extends st es (emit (CacheUpdateFullText (notNull us)) st3)"
      using e1(1) e2(1) e3(1)
      by (simp add: extends_def emit_def es_def st1'_def st2_def st3_def)
    have w: "storeWrites es = storeWrites es2"
      using e1 e3 by (simp add: es_def)
    have f3: "fileRemoves es3 = map fst (filter (\<lambda>w. snd w \<noteq> Returns True) (storeWrites es2))"
      using e3(3) e2(2) e2(4) failed_of_zip [of "storeWrites es2"] by (simp add: us_def)
    have r: "fileRemoves es = failedWrites es"
      using e1 e2 f3 w by (simp add: es_def failedWrites_def)
    have p: "notNull us = persisted es"
      using e2(4) w notNull_writeResult [of "storeWrites es2"] by (simp add: us_def persisted_def)
    have n: "list_all pathsRelative (map fst (storeWrites es))"
      using normalizeAll_relative [OF Returns] e2(2) w by simp
    have m: "map fst (storeWrites es) = ms"
      using e2(2) w by simp
    show ?thesis
      using body ext r p n m c Returns by (intro exI [of _ es]) simp
  qed
qed

lemma update_events:
  "\<exists>es. extends st es (snd (update C ds st))
     \<and> fst (update C ds st) = persisted es
     \<and> fileRemoves es = failedWrites es
     \<and> list_all pathsRelative (map fst (storeWrites es))
     \<and> (\<forall>ms. \<not> dbInitializing st
            \<and> normalizeAll (fst (chunkRun (moveWorker C) Some ds st)) = Returns ms
          \<longrightarrow> map fst (storeWrites es) = ms)"
proof -
  obtain es where e: "extends st es (snd (updateBody C ds st))"
      "fst (updateBody C ds st) = Returns (persisted es)
        \<or> fst (updateBody C ds st) = Throws \<and> storeWrites es = []"
      "fileRemoves es = failedWrites es"
      "list_all pathsRelative (map fst (storeWrites es))"
      "\<forall>ms. \<not> dbInitializing st
            \<and> normalizeAll (fst (chunkRun (moveWorker C) Some ds st)) = Returns ms
          \<longrightarrow> map fst (storeWrites es) = ms"
    using updateBody_events [of st C ds] by blast
  have "snd (update C ds st) = snd (updateBody C ds st)"
    by (simp add: update_def errorcatching_def split: outcome.splits)
  moreover have "fst (update C ds st) = persisted es"
    using e(2) persisted_Nil [of es]
    by (auto simp add: update_def errorcatching_def split: outcome.splits)
  ultimately show ?thesis
    using e by (intro exI [of _ es]) simp
qed

lemma newEvents_extends: "extends st es st' \<Longrightarrow> newEvents st st' = es"
  by (simp add: extends_def newEvents_def)


lemma chunkRun_length: "length (fst (chunkRun worker fallback xs st)) = length xs"
proof (induction xs arbitrary: st)
  case Nil
  show ?case by simp
next
  case (Cons x xs)
  obtain r x' st1 where w: "worker x st = (r, x', st1)"
    by (cases "worker x st") auto
  obtain rs st2 where c: "chunkRun worker fallback xs st1 = (rs, st2)"
    by (cases "chunkRun worker fallback xs st1") auto
  have "length rs = length xs"
    using Cons.IH [of st1] c by simp
  then show ?case
    using w c by simp
qed

lemma normalizeAll_length: "normalizeAll rs = Returns ms \<Longrightarrow> length ms = length rs"
  by (induction rs arbitrary: ms rule: normalizeAll.induct) (auto split: outcome.splits)

lemma list_all_filtered: "list_all P (map fst ws) \<Longrightarrow> list_all P (map fst (filter Q ws))"
  by (induction ws) simp_all

lemma answered_append:
  "answered C h (xs @ ys) = (answered C h xs \<and> answered C (h @ xs) ys)"
proof (induction xs arbitrary: h)
  case Nil
  show ?case by simp
next
  case (Cons e xs)
  show ?case
    using Cons.IH [of "h @ [e]"] by (cases e) simp_all
qed

lemma answered_no_writes: "storeWrites es = [] \<Longrightarrow> answered C h es"
proof (induction es arbitrary: h)
  case Nil
  show ?case by simp
next
  case (Cons e es)
  then show ?case
    by (cases e) simp_all
qed

lemma persistAll_answered:
  "\<exists>es. extends st es (snd (persistAll C ds st)) \<and> map fst (storeWrites es) = ds
     \<and> fileRemoves es = []
     \<and> fst (persistAll C ds st) = map writeResult (storeWrites es)
     \<and> answered C (history st) es"
proof (induction ds arbitrary: st)
  case Nil
  show ?case using extends_refl [of st] by (intro exI [of _ "[]"]) simp
next
  case (Cons d ds)
  define r where "r = repoUpdate C (history st) d"
  define st1 where "st1 = emit (StoreUpdate d r) st"
  obtain es where e: "extends st1 es (snd (persistAll C ds st1))"
      "map fst (storeWrites es) = ds" "fileRemoves es = []"
      "fst (persistAll C ds st1) = map writeResult (storeWrites es)"
      "answered C (history st1) es"
    using Cons.IH [of st1] by auto
  have s: "snd (persistAll C (d # ds) st) = snd (persistAll C ds st1)"
    by (simp add: Let_def r_def st1_def split: prod.splits)
  have f: "fst (persistAll C (d # ds) st) = writeResult (d, r) # fst (persistAll C ds st1)"
    by (cases r) (auto simp add: Let_def r_def st1_def writeResult_def split: prod.splits)
  have x: "extends st (StoreUpdate d r # es) (snd (persistAll C (d # ds) st))"
    using extends_trans [OF extends_emit [of st "StoreUpdate d r"]] e(1) s st1_def by fastforce
  have a: "answered C (history st) (StoreUpdate d r # es)"
    using e(5) by (simp add: r_def st1_def)
  have w: "map fst (storeWrites (StoreUpdate d r # es)) = d # ds"
      "fileRemoves (StoreUpdate d r # es) = []"
      "fst (persistAll C (d # ds) st) = map writeResult (storeWrites (StoreUpdate d r # es))"
    using e(2) e(3) e(4) f by simp_all
  show ?case
    by (rule exI [of _ "StoreUpdate d r # es"]) (intro conjI x w a)
qed

lemma reconcileFiles_removes:
  "reconcileFiles (zip (map fst ws) (map writeResult ws)) st
     = st\<lparr>history := history st
         @ map FileRemove (map fst (filter (\<lambda>w. snd w \<noteq> Returns True) ws))\<rparr>"
proof (induction ws arbitrary: st)
  case Nil
  show ?case by simp
next
  case (Cons w ws)
  show ?case
  proof (cases "snd w = Returns True")
    case True
    then show ?thesis
      using Cons.IH [of st] by (simp add: writeResult_def)
  next
    case False
    then show ?thesis
      using Cons.IH [of "emit (FileRemove (fst w)) st"] by (simp add: writeResult_def emit_def)
  qed
qed

lemma storageAfter_append:
  "storageAfter C h (xs @ ys) S = storageAfter C (h @ xs) ys (storageAfter C h xs S)"
  by (induction xs arbitrary: h S) simp_all

lemma storageAfter_removes:
  "storageAfter C h (map FileRemove ds) S
     = filter (\<lambda>f. f \<notin> set (concat (map fileRefs ds))) S"
proof (induction ds arbitrary: h S)
  case Nil
  show ?case by simp
next
  case (Cons d ds)
  show ?case
    using Cons.IH [of "h @ [FileRemove d]" "filter (\<lambda>f. f \<notin> set (fileRefs d)) S"]
    by (simp add: conj_commute)
qed

lemma keep_without_removes: "fileRemoves es = [] \<Longrightarrow> filter (\<lambda>e. \<not> isFileRemove e) es = es"
proof (induction es)
  case Nil
  show ?case by simp
next
  case (Cons e es)
  then show ?case by (cases e) simp_all
qed

lemma drop_removes: "filter (\<lambda>e. \<not> isFileRemove e) (map FileRemove ds) = []"
  by (induction ds) simp_all

lemma storeWrites_removes: "storeWrites (map FileRemove ds) = []"
  by (induction ds) simp_all

lemma fileRemoves_removes: "fileRemoves (map FileRemove ds) = ds"
  by (induction ds) simp_all


lemma update_structure:
  "\<exists>before tail.
     extends st (before @ map FileRemove (failedWrites before) @ tail) (snd (update C ds st))
     \<and> fileRemoves before = []
     \<and> answered C (history st) before
     \<and> fst (update C ds st) = persisted before
     \<and> (tail = [] \<and> storeWrites before = []
          \<or> tail = [CacheUpdateFullText (persisted before)])
     \<and> (dbInitializing st \<or> normalizeAll (fst (chunkRun (moveWorker C) Some ds st)) = Throws
          \<longrightarrow> storeWrites before = [])"
proof (cases "dbInitializing st")
  case True
  then have "update C ds st = ([], st)"
    by (simp add: update_def updateBody_def errorcatching_def)
  then show ?thesis
    using extends_refl [of st]
    by (intro exI [of _ "[]"]) (simp add: persisted_def failedWrites_def)
next
  case False
  obtain results st1 where c: "chunkRun (moveWorker C) Some ds st = (results, st1)"
    by (cases "chunkRun (moveWorker C) Some ds st") auto
  obtain es1 where e1: "extends st es1 st1" "storeWrites es1 = []" "fileRemoves es1 = []"
    using chunkRun_moveWorker_extends [of st C ds] c by auto
  show ?thesis
  proof (cases "normalizeAll results")
    case Throws
    then have "update C ds st = ([], st1)"
      using False c by (simp add: update_def updateBody_def errorcatching_def)
    then show ?thesis
      using e1 answered_no_writes [OF e1(2), of C "history st"]
      by (intro exI [of _ es1] exI [of _ "[]"]) (simp add: persisted_def failedWrites_def)
  next
    case (Returns ms)
    define st1' where "st1' = emit StoreRealm st1"
    obtain es2 where e2: "extends st1' es2 (snd (persistAll C ms st1'))"
        "map fst (storeWrites es2) = ms" "fileRemoves es2 = []"
        "fst (persistAll C ms st1') = map writeResult (storeWrites es2)"
        "answered C (history st1') es2"
      using persistAll_answered [of st1' C ms] by auto
    define us where "us = fst (persistAll C ms st1')"
    define st2 where "st2 = snd (persistAll C ms st1')"
    define before where "before = es1 @ [StoreRealm] @ es2"
    have w: "storeWrites before = storeWrites es2"
      using e1 by (simp add: before_def)
    have fw: "failedWrites before = map fst (filter (\<lambda>w. snd w \<noteq> Returns True) (storeWrites es2))"
      using w by (simp add: failedWrites_def)
    have z: "zip ms us = zip (map fst (storeWrites es2)) (map writeResult (storeWrites es2))"
      using e2(2) e2(4) by (simp add: us_def)
    have st3: "reconcileFiles (zip ms us) st2
        = st2\<lparr>history := history st2 @ map FileRemove (failedWrites before)\<rparr>"
      using reconcileFiles_removes [of "storeWrites es2" st2] z fw by simp
    have p: "notNull us = persisted before"
      using e2(4) w notNull_writeResult [of "storeWrites es2"] by (simp add: us_def persisted_def)
    have body: "update C ds st
        = (persisted before,
           emit (CacheUpdateFullText (persisted before)) (reconcileFiles (zip ms us) st2))"
      using False c Returns p
      by (auto simp add: update_def updateBody_def errorcatching_def Let_def us_def st2_def
          st1'_def split: prod.splits)
    have h2: "st2 = st\<lparr>history := history st @ before\<rparr>"
      using e1(1) e2(1) by (simp add: extends_def emit_def st1'_def st2_def before_def)
    have ext: "extends st
        (before @ map FileRemove (failedWrites before) @ [CacheUpdateFullText (persisted before)])
        (snd (update C ds st))"
      using body st3 h2 by (simp add: extends_def emit_def)
    have h1: "history st1' = history st @ es1 @ [StoreRealm]"
      using e1(1) by (simp add: extends_def emit_def st1'_def)
    have a: "answered C (history st) before"
      using e2(5) h1 answered_no_writes [OF e1(2), of C "history st"]
      by (simp add: before_def answered_append)
    have r: "fileRemoves before = []"
      using e1 e2 by (simp add: before_def)
    have f: "fst (update C ds st) = persisted before"
      using body by simp
    have n: "\<not> (dbInitializing st
        \<or> normalizeAll (fst (chunkRun (moveWorker C) Some ds st)) = Throws)"
      using False c Returns by simp
    show ?thesis
      using ext r a f n
      by (intro exI [of _ before] exI [of _ "[CacheUpdateFullText (persisted before)]"]) simp
  qed
qed


lemma update_observed:
  "answered C (history st) (newEvents st (snd (update C ds st)))
   \<and> fst (update C ds st) = persisted (newEvents st (snd (update C ds st)))
   \<and> fileRemoves (newEvents st (snd (update C ds st)))
       = failedWrites (newEvents st (snd (update C ds st)))
   \<and> (dbInitializing st \<or> normalizeAll (fst (chunkRun (moveWorker C) Some ds st)) = Throws
        \<longrightarrow> storeWrites (newEvents st (snd (update C ds st))) = [])
   \<and> storageAfter C (history st) (newEvents st (snd (update C ds st))) S
       = filter (\<lambda>f. f \<notin> set (concat (map fileRefs
                   (failedWrites (newEvents st (snd (update C ds st)))))))
           (storageAfter C (history st)
              (filter (\<lambda>e. \<not> isFileRemove e) (newEvents st (snd (update C ds st)))) S)"
proof -
  obtain before tail where b:
      "extends st (before @ map FileRemove (failedWrites before) @ tail) (snd (update C ds st))"
      "fileRemoves before = []"
      "answered C (history st) before"
      "fst (update C ds st) = persisted before"
      "tail = [] \<and> storeWrites before = [] \<or> tail = [CacheUpdateFullText (persisted before)]"
      "dbInitializing st \<or> normalizeAll (fst (chunkRun (moveWorker C) Some ds st)) = Throws
          \<longrightarrow> storeWrites before = []"
    using update_structure [of st C ds] by blast
  define F where "F = failedWrites before"
  define E where "E = before @ map FileRemove F @ tail"
  have n: "newEvents st (snd (update C ds st)) = E"
    using newEvents_extends [OF b(1)] by (simp add: E_def F_def)
  have t: "storeWrites tail = []" "fileRemoves tail = []"
      "filter (\<lambda>e. \<not> isFileRemove e) tail = tail"
      "\<And>h S. storageAfter C h tail S = S"
    using b(5) by auto
  have w: "storeWrites E = storeWrites before"
    using t(1) by (simp add: E_def storeWrites_removes)
  then have fp: "failedWrites E = F" "persisted E = persisted before"
    by (simp_all add: failedWrites_def persisted_def F_def)
  have r: "fileRemoves E = F"
    using b(2) t(2) by (simp add: E_def fileRemoves_removes)
  have "storeWrites (map FileRemove F @ tail) = []"
    using t(1) by (simp add: storeWrites_removes)
  then have a: "answered C (history st) E"
    using b(3) answered_no_writes [of "map FileRemove F @ tail" C "history st @ before"]
    by (simp add: E_def answered_append)
  have k: "filter (\<lambda>e. \<not> isFileRemove e) E = before @ tail"
    using keep_without_removes [OF b(2)] t(3) by (simp add: E_def drop_removes)
  have s1: "storageAfter C (history st) E S
      = filter (\<lambda>f. f \<notin> set (concat (map fileRefs F))) (storageAfter C (history st) before S)"
    using t(4) by (simp add: E_def storageAfter_append storageAfter_removes)
  have s2: "storageAfter C (history st) (before @ tail) S = storageAfter C (history st) before S"
    using t(4) by (simp add: storageAfter_append)
  show ?thesis
    using n a b(4) b(6) fp r w k s1 s2 by simp
qed

text \<open>
  C5. The list \<open>update\<close> returns is the list of the drafts whose write to the store
  answered \<open>true\<close>, in the order of the writes; a draft whose write answered \<open>false\<close> or
  threw is not in it, and there is no \<open>null\<close> in it. The answer of a write is the one the
  store's \<open>update\<close> gives at the history of that call. The writes are attempted in input
  order: when the store is not initializing and no relocation result is \<open>null\<close>, the
  drafts written are the relocated drafts with their paths normalized, one per input
  draft. When the store is initializing or a relocation result is \<open>null\<close>, nothing is
  written and the list is empty.
\<close>

theorem update_returns_persisted:
  "fst (update C ds st) = persisted (newEvents st (snd (update C ds st)))
   \<and> answered C (history st) (newEvents st (snd (update C ds st)))
   \<and> (\<not> dbInitializing st
        \<and> normalizeAll (fst (chunkRun (moveWorker C) Some ds st)) = Returns ms
      \<longrightarrow> map fst (storeWrites (newEvents st (snd (update C ds st)))) = ms
          \<and> ms = map normalizePaths (notNull (fst (chunkRun (moveWorker C) Some ds st)))
          \<and> length ms = length ds)
   \<and> (dbInitializing st \<or> normalizeAll (fst (chunkRun (moveWorker C) Some ds st)) = Throws
      \<longrightarrow> storeWrites (newEvents st (snd (update C ds st))) = []
          \<and> fst (update C ds st) = [])"
proof -
  obtain es where e: "extends st es (snd (update C ds st))"
      "\<forall>ms. \<not> dbInitializing st
            \<and> normalizeAll (fst (chunkRun (moveWorker C) Some ds st)) = Returns ms
          \<longrightarrow> map fst (storeWrites es) = ms"
    using update_events [of st C ds] by blast
  have n: "newEvents st (snd (update C ds st)) = es"
    using newEvents_extends [OF e(1)] .
  note o = update_observed [of C st ds]
  have p: "fst (update C ds st) = persisted es" "answered C (history st) es"
      "dbInitializing st \<or> normalizeAll (fst (chunkRun (moveWorker C) Some ds st)) = Throws
        \<longrightarrow> storeWrites es = []"
    using o n by simp_all
  have q: "storeWrites es = [] \<longrightarrow> fst (update C ds st) = []"
    using p(1) by (simp add: persisted_def)
  show ?thesis
    using p q e(2) n normalizeAll_length [of "fst (chunkRun (moveWorker C) Some ds st)" ms]
      normalizeAll_Returns [of "fst (chunkRun (moveWorker C) Some ds st)" ms]
      chunkRun_length [of "moveWorker C" Some ds st]
    by auto
qed

theorem update_returns_persisted_witness:
  "fst (update dedupeCollaborators [draftA, draftB, draftA] copyState)
     = [\<lparr>p_id = ''1'', title = ''A'', mainURL = ''a.pdf'',
         supURLs = [''a-sup.pdf'', ''notes.txt''], tags = [], folders = []\<rparr>]
   \<and> storeWrites (newEvents copyState
        (snd (update dedupeCollaborators [draftA, draftB, draftA] copyState)))
     = [(\<lparr>p_id = ''1'', title = ''A'', mainURL = ''a.pdf'',
          supURLs = [''a-sup.pdf'', ''notes.txt''], tags = [], folders = []\<rparr>, Returns True),
        (\<lparr>p_id = ''2'', title = ''B'', mainURL = ''b.pdf'', supURLs = [], tags = [],
          folders = []\<rparr>, Throws),
        (\<lparr>p_id = ''1'', title = ''A'', mainURL = ''a.pdf'',
          supURLs = [''a-sup.pdf'', ''notes.txt''], tags = [], folders = []\<rparr>, Returns False)]
   \<and> answered dedupeCollaborators []
        (newEvents copyState
          (snd (update dedupeCollaborators [draftA, draftB, draftA] copyState)))"
proof -
  have w: "storeWrites (newEvents copyState
        (snd (update dedupeCollaborators [draftA, draftB, draftA] copyState)))
     = [(\<lparr>p_id = ''1'', title = ''A'', mainURL = ''a.pdf'',
          supURLs = [''a-sup.pdf'', ''notes.txt''], tags = [], folders = []\<rparr>, Returns True),
        (\<lparr>p_id = ''2'', title = ''B'', mainURL = ''b.pdf'', supURLs = [], tags = [],
          folders = []\<rparr>, Throws),
        (\<lparr>p_id = ''1'', title = ''A'', mainURL = ''a.pdf'',
          supURLs = [''a-sup.pdf'', ''notes.txt''], tags = [], folders = []\<rparr>, Returns False)]"
    by code_simp
  have h: "history copyState = []"
    by (simp add: copyState_def)
  show ?thesis
    using update_returns_persisted [of dedupeCollaborators "[draftA, draftB, draftA]" copyState]
      w h
    by (simp add: persisted_def)
qed

text \<open>
  C6. The claim: the file removal is called on the relocated files of every draft whose
  write failed, so that no relocated file is left without a row, and a draft that was
  persisted is not subject to the removal. What holds: within one call of \<open>update\<close> the
  file removal is called with exactly the drafts whose write to the store answered
  \<open>false\<close> or threw (the answer being the store's at the history of the call), in the
  order of the writes and in the form they were handed to the store; every write ends
  either in the returned list or in a removal. After the call no file that such a draft
  references is left in managed storage, and managed storage is otherwise as the call
  without its removals leaves it: a file that no failed draft references stays. A
  persisted draft keeps its files only if no failed draft of the same call references
  them (the theorem after the next has a call where one does).
\<close>

theorem update_removes_failed:
  "answered C (history st) (newEvents st (snd (update C ds st)))
   \<and> fileRemoves (newEvents st (snd (update C ds st)))
       = failedWrites (newEvents st (snd (update C ds st)))
   \<and> length (fileRemoves (newEvents st (snd (update C ds st)))) + length (fst (update C ds st))
       = length (storeWrites (newEvents st (snd (update C ds st))))
   \<and> storageAfter C (history st) (newEvents st (snd (update C ds st))) S
       = filter (\<lambda>f. f \<notin> set (concat (map fileRefs
                   (failedWrites (newEvents st (snd (update C ds st)))))))
           (storageAfter C (history st)
              (filter (\<lambda>e. \<not> isFileRemove e) (newEvents st (snd (update C ds st)))) S)
   \<and> list_all (\<lambda>f. f \<notin> set (storageAfter C (history st)
                     (newEvents st (snd (update C ds st))) S))
       (concat (map fileRefs (failedWrites (newEvents st (snd (update C ds st))))))
   \<and> (f \<in> set (storageAfter C (history st)
               (filter (\<lambda>e. \<not> isFileRemove e) (newEvents st (snd (update C ds st)))) S)
        \<and> f \<notin> set (concat (map fileRefs
                   (failedWrites (newEvents st (snd (update C ds st))))))
      \<longrightarrow> f \<in> set (storageAfter C (history st) (newEvents st (snd (update C ds st))) S))"
proof -
  note o = update_observed [of C st ds S]
  have c: "length (failedWrites (newEvents st (snd (update C ds st))))
      + length (persisted (newEvents st (snd (update C ds st))))
      = length (storeWrites (newEvents st (snd (update C ds st))))"
    using sum_length_filter_compl [of "\<lambda>w. snd w = Returns True"
        "storeWrites (newEvents st (snd (update C ds st)))"]
    by (simp add: failedWrites_def persisted_def)
  have s: "storageAfter C (history st) (newEvents st (snd (update C ds st))) S
       = filter (\<lambda>f. f \<notin> set (concat (map fileRefs
                   (failedWrites (newEvents st (snd (update C ds st)))))))
           (storageAfter C (history st)
              (filter (\<lambda>e. \<not> isFileRemove e) (newEvents st (snd (update C ds st)))) S)"
    using o by blast
  have g: "list_all (\<lambda>f. f \<notin> set (storageAfter C (history st)
                     (newEvents st (snd (update C ds st))) S))
       (concat (map fileRefs (failedWrites (newEvents st (snd (update C ds st))))))"
    unfolding s by (simp add: list_all_iff)
  have k: "f \<in> set (storageAfter C (history st)
               (filter (\<lambda>e. \<not> isFileRemove e) (newEvents st (snd (update C ds st)))) S)
        \<and> f \<notin> set (concat (map fileRefs
                   (failedWrites (newEvents st (snd (update C ds st))))))
      \<longrightarrow> f \<in> set (storageAfter C (history st) (newEvents st (snd (update C ds st))) S)"
    unfolding s by simp
  show ?thesis
    using o c s g k by simp
qed


theorem update_removes_failed_witness:
  "fileRemoves (newEvents copyState
      (snd (update dedupeCollaborators [draftA, draftB] copyState)))
     = [\<lparr>p_id = ''2'', title = ''B'', mainURL = ''b.pdf'', supURLs = [], tags = [],
         folders = []\<rparr>]
   \<and> ''b.pdf'' \<notin> set (storageAfter dedupeCollaborators []
        (newEvents copyState (snd (update dedupeCollaborators [draftA, draftB] copyState))) [])
   \<and> ''a.pdf'' \<in> set (storageAfter dedupeCollaborators []
        (newEvents copyState (snd (update dedupeCollaborators [draftA, draftB] copyState))) [])"
proof -
  have f: "failedWrites (newEvents copyState
      (snd (update dedupeCollaborators [draftA, draftB] copyState)))
     = [\<lparr>p_id = ''2'', title = ''B'', mainURL = ''b.pdf'', supURLs = [], tags = [],
         folders = []\<rparr>]"
    by code_simp
  have m: "''a.pdf'' \<in> set (storageAfter dedupeCollaborators []
        (filter (\<lambda>e. \<not> isFileRemove e)
          (newEvents copyState (snd (update dedupeCollaborators [draftA, draftB] copyState))))
        [])"
    by code_simp
  have h: "history copyState = []"
    by (simp add: copyState_def)
  show ?thesis
    using update_removes_failed [of dedupeCollaborators copyState "[draftA, draftB]" "[]"
        "''a.pdf''"] f m h
    by (simp add: fileRefs_def)
qed

text \<open>
  The claim of C6 as it stands fails when a draft occurs twice in one call and the store
  answers \<open>true\<close> to its first write and \<open>false\<close> to its second: the draft returned as
  persisted is the draft the file removal is called with, and its files, which the
  relocation had put into managed storage, are gone after the call.
\<close>

theorem update_removes_persisted_duplicate:
  "fst (update dedupeCollaborators [draftA, draftA] copyState)
     = [\<lparr>p_id = ''1'', title = ''A'', mainURL = ''a.pdf'',
         supURLs = [''a-sup.pdf'', ''notes.txt''], tags = [], folders = []\<rparr>]
   \<and> fileRemoves (newEvents copyState
        (snd (update dedupeCollaborators [draftA, draftA] copyState)))
     = [\<lparr>p_id = ''1'', title = ''A'', mainURL = ''a.pdf'',
         supURLs = [''a-sup.pdf'', ''notes.txt''], tags = [], folders = []\<rparr>]
   \<and> storageAfter dedupeCollaborators []
        (filter (\<lambda>e. \<not> isFileRemove e)
          (newEvents copyState (snd (update dedupeCollaborators [draftA, draftA] copyState)))) []
     = [''a.pdf'', ''a-sup.pdf'', ''notes.txt'', ''a.pdf'', ''a-sup.pdf'', ''notes.txt'']
   \<and> storageAfter dedupeCollaborators []
        (newEvents copyState (snd (update dedupeCollaborators [draftA, draftA] copyState))) []
     = []"
  by code_simp

text \<open>
  C7. After the path normalization the primary file reference of a draft is never an
  absolute path: it is empty if it was still absolute after the relocation and the base
  name otherwise, and the supplementary references that are absolute are dropped. This
  holds for every draft \<open>update\<close> hands to the store, for every draft it returns and for
  every draft it hands to the file removal. Paths are POSIX paths.
\<close>

theorem update_paths_normalized:
  "list_all pathsRelative (map fst (storeWrites (newEvents st (snd (update C ds st)))))
   \<and> list_all pathsRelative (fst (update C ds st))
   \<and> list_all pathsRelative (fileRemoves (newEvents st (snd (update C ds st))))
   \<and> pathsRelative (normalizePaths d)
   \<and> mainURL (normalizePaths d)
       = (if mainURL d \<noteq> [] \<and> isAbsolute (mainURL d) then [] else basename (mainURL d))
   \<and> supURLs (normalizePaths d) = filter (\<lambda>url. \<not> isAbsolute url) (supURLs d)"
proof -
  obtain es where e: "extends st es (snd (update C ds st))"
      "fst (update C ds st) = persisted es"
      "fileRemoves es = failedWrites es"
      "list_all pathsRelative (map fst (storeWrites es))"
    using update_events [of st C ds] by blast
  have n: "newEvents st (snd (update C ds st)) = es"
    using newEvents_extends [OF e(1)] .
  have "list_all pathsRelative (persisted es)" "list_all pathsRelative (failedWrites es)"
    using e(4) list_all_filtered [of pathsRelative "storeWrites es"]
    by (simp_all add: persisted_def failedWrites_def)
  then show ?thesis
    using e n normalizePaths_relative [of d]
    by (simp add: normalizePaths_def Let_def)
qed

theorem update_paths_normalized_witness:
  "map (mainURL \<circ> fst) (storeWrites (newEvents exampleState
      (snd (update exampleCollaborators [draftA, draftB] exampleState)))) = [''a.pdf'', []]
   \<and> list_all pathsRelative (map fst (storeWrites (newEvents exampleState
      (snd (update exampleCollaborators [draftA, draftB] exampleState)))))
   \<and> list_all pathsRelative (fst (update exampleCollaborators [draftA, draftB] exampleState))
   \<and> supURLs (normalizePaths draftA) = [''notes.txt'']"
proof -
  have m: "map (mainURL \<circ> fst) (storeWrites (newEvents exampleState
      (snd (update exampleCollaborators [draftA, draftB] exampleState)))) = [''a.pdf'', []]"
    by code_simp
  have s: "filter (\<lambda>url. \<not> isAbsolute url) (supURLs draftA) = [''notes.txt'']"
    by code_simp
  show ?thesis
    using update_paths_normalized [of exampleState exampleCollaborators "[draftA, draftB]" draftA]
      m s
    by simp
qed

section \<open>Theorems on the scheduled rescrape\<close>

lemma extends_fields:
  "extends st es st' \<Longrightarrow> dbInitializing st' = dbInitializing st
     \<and> allowRoutineMatch st' = allowRoutineMatch st
     \<and> lastRematchTime st' = lastRematchTime st
     \<and> history st' = history st @ es"
  by (simp add: extends_def)

lemma scrape_extends:
  assumes "\<not> dbInitializing st"
  shows "\<exists>es. extends st (ScrapeCall (map EntityPayload ps) [] False # es)
           (snd (scrape C ps None st))"
proof (cases "scrapeCall C (history st) (map EntityPayload ps) [] False")
  case Throws
  then have "snd (scrape C ps None st) = emit (ScrapeCall (map EntityPayload ps) [] False) st"
    using assms by (simp add: scrape_def errorcatching_def Let_def)
  then show ?thesis
    using extends_emit [of st "ScrapeCall (map EntityPayload ps) [] False"]
    by (intro exI [of _ "[]"]) simp
next
  case (Returns ds)
  define st1 where "st1 = emit (ScrapeCall (map EntityPayload ps) [] False) st"
  have s: "snd (scrape C ps None st) = snd (update C ds st1)"
    using assms Returns by (simp add: scrape_def errorcatching_def Let_def st1_def)
  obtain es where "extends st1 es (snd (update C ds st1))"
    using update_events [of st1 C ds] by blast
  then have "extends st ([ScrapeCall (map EntityPayload ps) [] False] @ es)
      (snd (update C ds st1))"
    using extends_trans [OF extends_emit [of st "ScrapeCall (map EntityPayload ps) [] False"]]
    by (simp add: st1_def)
  then show ?thesis
    using s by (intro exI [of _ es]) simp
qed

lemma scrapePreprint_skip:
  "dbInitializing st \<or> \<not> allowRoutineMatch st
     \<or> roundSeconds nowGuard - lastRematchTime st < 7 * 86400 - 10
   \<Longrightarrow> scrapePreprint C nowGuard nowStamp st = ((), st)"
  by (auto simp add: scrapePreprint_def errorcatching_def)

lemma scrapePreprint_cases:
  "snd (scrapePreprint C nowGuard nowStamp st) = st
   \<or> snd (scrapePreprint C nowGuard nowStamp st)
        = st\<lparr>history := history st @ [StoreRealm, StoreLoad preprintQuery ''addTime'' ''desc'']\<rparr>
   \<or> (\<not> roundSeconds nowGuard - lastRematchTime st < 7 * 86400 - 10
       \<and> (\<exists>ps es. snd (scrapePreprint C nowGuard nowStamp st)
            = st\<lparr>lastRematchTime := roundSeconds nowStamp,
                 history := history st
                   @ [StoreRealm, StoreLoad preprintQuery ''addTime'' ''desc'',
                      ScrapeCall (map EntityPayload ps) [] False]
                   @ es @ [PrefSetLastRematch (roundSeconds nowStamp)]\<rparr>))"
proof (cases "dbInitializing st \<or> \<not> allowRoutineMatch st
     \<or> roundSeconds nowGuard - lastRematchTime st < 7 * 86400 - 10")
  case True
  then show ?thesis
    using scrapePreprint_skip [of st nowGuard C nowStamp] by simp
next
  case False
  define st1 where "st1 = emit StoreRealm st"
  define st2 where "st2 = emit (StoreLoad preprintQuery ''addTime'' ''desc'') st1"
  have h2: "st2 = st\<lparr>history := history st
      @ [StoreRealm, StoreLoad preprintQuery ''addTime'' ''desc'']\<rparr>"
    by (simp add: st2_def st1_def emit_def)
  show ?thesis
  proof (cases "repoLoad C (history st1) preprintQuery ''addTime'' ''desc''")
    case Throws
    then have "snd (scrapePreprint C nowGuard nowStamp st) = st2"
      using False by (simp add: scrapePreprint_def errorcatching_def Let_def st1_def st2_def)
    then show ?thesis
      using h2 by simp
  next
    case (Returns ps)
    define st3 where "st3 = snd (scrape C ps None st2)"
    have "\<not> dbInitializing st2"
      using False by (simp add: h2)
    then obtain es where "extends st2 (ScrapeCall (map EntityPayload ps) [] False # es) st3"
      using scrape_extends [of st2 ps C] st3_def by auto
    then have h3: "st3 = st\<lparr>history := history st
        @ [StoreRealm, StoreLoad preprintQuery ''addTime'' ''desc'',
           ScrapeCall (map EntityPayload ps) [] False] @ es\<rparr>"
      by (simp add: extends_def h2)
    have "snd (scrapePreprint C nowGuard nowStamp st)
        = emit (PrefSetLastRematch (roundSeconds nowStamp))
            (st3\<lparr>lastRematchTime := roundSeconds nowStamp\<rparr>)"
      using False Returns
      by (simp add: scrapePreprint_def errorcatching_def Let_def st1_def st2_def st3_def)
    then have "snd (scrapePreprint C nowGuard nowStamp st)
        = st\<lparr>lastRematchTime := roundSeconds nowStamp,
             history := history st
               @ [StoreRealm, StoreLoad preprintQuery ''addTime'' ''desc'',
                  ScrapeCall (map EntityPayload ps) [] False]
               @ es @ [PrefSetLastRematch (roundSeconds nowStamp)]\<rparr>"
      by (simp add: h3 emit_def)
    then show ?thesis
      using False by blast
  qed
qed


text \<open>
  C9. A firing of the rescrape task at which now minus the stored last-rematch time is
  below \<open>7 * 86400 - 10\<close> seconds changes nothing: no store query, no scrape, no update,
  and the last-rematch time stays. This holds in particular for a second firing after
  any first one. A firing either leaves the last-rematch time as it is and writes no
  such preference, or it has passed the threshold, has queried the store and called the
  scrape service and then sets the time to the current time.
\<close>

theorem scrapePreprint_rescrape_guard:
  "(roundSeconds nowGuard - lastRematchTime st < 7 * 86400 - 10
      \<longrightarrow> scrapePreprint C nowGuard nowStamp st = ((), st))
   \<and> (roundSeconds t2 - lastRematchTime (snd (scrapePreprint C nowGuard nowStamp st))
          < 7 * 86400 - 10
      \<longrightarrow> scrapePreprint C t2 t2' (snd (scrapePreprint C nowGuard nowStamp st))
          = ((), snd (scrapePreprint C nowGuard nowStamp st)))
   \<and> (lastRematchTime (snd (scrapePreprint C nowGuard nowStamp st)) = lastRematchTime st
        \<and> (\<forall>t. PrefSetLastRematch t
              \<notin> set (newEvents st (snd (scrapePreprint C nowGuard nowStamp st))))
      \<or> lastRematchTime (snd (scrapePreprint C nowGuard nowStamp st)) = roundSeconds nowStamp
        \<and> 7 * 86400 - 10 \<le> roundSeconds nowGuard - lastRematchTime st
        \<and> (\<exists>ps es. newEvents st (snd (scrapePreprint C nowGuard nowStamp st))
              = [StoreRealm, StoreLoad preprintQuery ''addTime'' ''desc'',
                 ScrapeCall (map EntityPayload ps) [] False]
                @ es @ [PrefSetLastRematch (roundSeconds nowStamp)]))"
proof -
  have a: "roundSeconds nowGuard - lastRematchTime st < 7 * 86400 - 10
      \<longrightarrow> scrapePreprint C nowGuard nowStamp st = ((), st)"
    using scrapePreprint_skip [of st nowGuard C nowStamp] by simp
  have b: "roundSeconds t2 - lastRematchTime (snd (scrapePreprint C nowGuard nowStamp st))
          < 7 * 86400 - 10
      \<longrightarrow> scrapePreprint C t2 t2' (snd (scrapePreprint C nowGuard nowStamp st))
          = ((), snd (scrapePreprint C nowGuard nowStamp st))"
    using scrapePreprint_skip [of "snd (scrapePreprint C nowGuard nowStamp st)" t2 C t2']
    by simp
  have c: "lastRematchTime (snd (scrapePreprint C nowGuard nowStamp st)) = lastRematchTime st
        \<and> (\<forall>t. PrefSetLastRematch t
              \<notin> set (newEvents st (snd (scrapePreprint C nowGuard nowStamp st))))
      \<or> lastRematchTime (snd (scrapePreprint C nowGuard nowStamp st)) = roundSeconds nowStamp
        \<and> 7 * 86400 - 10 \<le> roundSeconds nowGuard - lastRematchTime st
        \<and> (\<exists>ps es. newEvents st (snd (scrapePreprint C nowGuard nowStamp st))
              = [StoreRealm, StoreLoad preprintQuery ''addTime'' ''desc'',
                 ScrapeCall (map EntityPayload ps) [] False]
                @ es @ [PrefSetLastRematch (roundSeconds nowStamp)])"
    using scrapePreprint_cases [of C nowGuard nowStamp st]
    by (elim disjE conjE exE) (auto simp add: newEvents_def)
  from a b c show ?thesis by blast
qed

theorem scrapePreprint_rescrape_guard_witness:
  "lastRematchTime (snd (scrapePreprint exampleCollaborators 1700700000123 1700700004600
      exampleState)) = 1700700005
   \<and> scrapePreprint exampleCollaborators 1700700100000 1700700100000
       (snd (scrapePreprint exampleCollaborators 1700700000123 1700700004600 exampleState))
     = ((), snd (scrapePreprint exampleCollaborators 1700700000123 1700700004600 exampleState))"
proof -
  have l: "lastRematchTime (snd (scrapePreprint exampleCollaborators 1700700000123
      1700700004600 exampleState)) = 1700700005"
    by code_simp
  have r: "roundSeconds 1700700100000 = 1700700100"
    by (simp add: roundSeconds_def)
  show ?thesis
    using scrapePreprint_rescrape_guard [THEN conjunct2, THEN conjunct1,
        of 1700700100000 exampleCollaborators 1700700000123 1700700004600 exampleState
          1700700100000] l r
    by simp
qed

section \<open>Theorems on the initializing store\<close>

text \<open>
  The operations that test \<open>dbInitializing\<close> themselves return the empty result and leave
  the state as it is. \<open>create\<close> calls the scrape service and then returns the empty list
  from the test in \<open>update\<close>. \<open>deleteSup\<close> removes the file first.
\<close>

lemma initializing_guarded_operations:
  assumes "dbInitializing st"
  shows "load C querySentence sortBy sortOrder fulltextQuerySentence st = ([], st)"
    and "loadByIds C ids st = ([], st)"
    and "update C ds st = ([], st)"
    and "updateWithCategorizer C ids categorizer type st = ((), st)"
    and "delete C optIds optEntities st = ((), st)"
    and "createIntoCategorizer C urlList categorizer type st = ([], st)"
    and "scrape C ds specificScrapers st = ((), st)"
    and "scrapePreprint C nowGuard nowStamp st = ((), st)"
    and "renameAll C st = ((), st)"
  using assms
  by (simp_all add: load_def loadByIds_def update_def updateBody_def updateWithCategorizer_def
      delete_def createIntoCategorizer_def scrape_def scrapePreprint_def renameAll_def
      errorcatching_def)

lemma create_initializing:
  assumes "dbInitializing st"
  shows "create C urlList st = ([], emit (ScrapeCall (map FilePayload urlList) [] False) st)"
proof -
  have "dbInitializing (emit (ScrapeCall (map FilePayload urlList) [] False) st)"
    using assms by (simp add: emit_def)
  then show ?thesis
    using initializing_guarded_operations(3)
    by (cases "scrapeCall C (history st) (map FilePayload urlList) [] False")
       (simp_all add: create_def errorcatching_def returned_def Let_def)
qed

lemma deleteSup_initializing:
  assumes "dbInitializing st"
  shows "deleteSup C paperEntity url st = ((), emit (FileRemoveFile url) st)"
proof -
  have "dbInitializing (emit (FileRemoveFile url) st)"
    using assms by (simp add: emit_def)
  then show ?thesis
    using initializing_guarded_operations(3)
    by (cases "fileRemoveFile C (history st) url")
       (simp_all add: deleteSup_def errorcatching_def Let_def)
qed

text \<open>
  C3. The claim: while the store reports the initializing state, every public operation,
  \<open>deleteSup\<close> among them, returns without touching the store, the file system or the
  cache. \<open>deleteSup\<close> has no test of its own and calls \<open>removeFile\<close> before \<open>update\<close>
  makes the test: on an initializing store the supplementary file is removed from the
  file system, and the record is not updated.
\<close>

theorem deleteSup_initializing_removes_file:
  "dbInitializing initializingState
   \<and> deleteSup exampleCollaborators draftA ''/lib/a-sup.pdf'' initializingState
       = ((), initializingState\<lparr>history := [FileRemoveFile ''/lib/a-sup.pdf'']\<rparr>)
   \<and> touches (FileRemoveFile ''/lib/a-sup.pdf'')"
  by code_simp

end
